theory Spec2Isabelle
  imports Main
begin

section \<open>The task list application of script.js\<close>

text \<open>
  The class \<open>TodoApp\<close> of \<open>script.js\<close> keeps an array of task objects, a completion
  filter, a search term and an id counter, and writes the array and the counter to the
  browser's \<open>localStorage\<close> after every change. Its methods are embedded here as functions
  on an explicit application state, which also holds the parts of the browser the methods
  read or write: the text of the input box, the \<open>data-task-id\<close> attributes of the rendered
  list items, the pending \<open>setTimeout\<close> callbacks of \<open>deleteTask\<close>, the notifications
  shown, and the storage. The clock read by \<open>new Date().toISOString()\<close> is an argument.

  Scope of the model.
  \<^item> A string is the list of its UTF-16 code units, for code units below 256, so that
    \<open>length\<close> is the \<open>length\<close> property of JavaScript.
  \<^item> A number is \<open>NaN\<close> or an integer. JavaScript numbers are doubles, which hold every
    integer of magnitude up to \<open>2^53\<close> exactly and only some of the larger ones. \<open>increment\<close>
    follows the rounding of doubles; \<open>toString\<close> and \<open>parseInt\<close> are exact for magnitudes
    below \<open>2^53\<close>, and the theorems that conclude a counter value or its stored text
    assume that range (\<open>safe_integer\<close>).
  \<^item> The statistics, the empty-state message, the theme (but for the read of the storage
    in \<open>loadThemeFromStorage\<close>), the edit input box and the styling of notifications only
    write to the page and are left out, as are the event handlers that only dispatch to
    the methods below.
\<close>

subsection \<open>Numbers and strict equality\<close>

datatype jsnum = NaN | Num int

text \<open>The \<open>id\<close> of a task object: a number, or \<open>null\<close> (which \<open>JSON.stringify\<close> writes for \<open>NaN\<close>).\<close>

datatype jsid = Null | Number jsnum

text \<open>\<open>t.id === taskId\<close>, for a number \<open>taskId\<close>: \<open>NaN\<close> equals nothing, not even itself.\<close>

fun strict_eq :: "jsid \<Rightarrow> jsnum \<Rightarrow> bool" where
  "strict_eq (Number (Num m)) (Num n) = (m = n)"
| "strict_eq _ _ = False"

text \<open>
  The value of \<open>x\<close> after \<open>x++\<close>, for a number \<open>x\<close> that is a double. From \<open>-2^53\<close> up to
  \<open>2^53 - 1\<close> the sum \<open>x + 1\<close> is a double. Beyond that the doubles are even integers:
  below magnitude \<open>2^54\<close> the sum lies halfway between \<open>x\<close> and \<open>x + 2\<close> and is rounded to
  the one whose half is even, and from magnitude \<open>2^54\<close> on it is rounded back to \<open>x\<close>. So a
  counter that has reached \<open>2^53 = 9007199254740992\<close> stays there.
\<close>

fun increment :: "jsnum \<Rightarrow> jsnum" where
  "increment NaN = NaN"
| "increment (Num n) =
     Num (if - 9007199254740992 \<le> n \<and> n < 9007199254740992 then n + 1
          else if \<bar>n\<bar> < 18014398509481984 \<and> odd (n div 2) then n + 2
          else n)"

definition safe_integer :: "int \<Rightarrow> bool" where
  "safe_integer n = (- 9007199254740992 < n \<and> n < 9007199254740992)"

subsection \<open>Strings\<close>

text \<open>
  White space and line terminators below code unit 256: tab, line feed, vertical tab,
  form feed, carriage return, space, no-break space.
\<close>

definition isWhiteSpace :: "char \<Rightarrow> bool" where
  "isWhiteSpace c = (of_char c \<in> {9, 10, 11, 12, 13, 32, 160 :: nat})"

definition trim :: "string \<Rightarrow> string" where
  "trim s = rev (dropWhile isWhiteSpace (rev (dropWhile isWhiteSpace s)))"

text \<open>Upper case letters below code unit 256 are A to Z and the Latin-1 capitals (not the times sign).\<close>

definition lowerChar :: "char \<Rightarrow> char" where
  "lowerChar c =
     (let n = (of_char c :: nat)
      in if (65 \<le> n \<and> n \<le> 90) \<or> (192 \<le> n \<and> n \<le> 214) \<or> (216 \<le> n \<and> n \<le> 222)
         then char_of (n + 32) else c)"

definition toLowerCase :: "string \<Rightarrow> string" where
  "toLowerCase s = map lowerChar s"

text \<open>\<open>s.includes(t)\<close>: \<open>t\<close> occurs in \<open>s\<close> as a contiguous substring.\<close>

fun includes_str :: "string \<Rightarrow> string \<Rightarrow> bool" where
  "includes_str [] t = (t = [])"
| "includes_str (c # cs) t = (take (length t) (c # cs) = t \<or> includes_str cs t)"

text \<open>\<open>toString\<close> of a number (decimal notation, as JavaScript writes magnitudes below \<open>10^21\<close>).\<close>

definition digit_char :: "nat \<Rightarrow> char" where
  "digit_char d = ''0123456789'' ! d"

fun digits :: "nat \<Rightarrow> string" where
  "digits n = (if n < 10 then [digit_char n] else digits (n div 10) @ [digit_char (n mod 10)])"

declare digits.simps [simp del]

fun toString :: "jsnum \<Rightarrow> string" where
  "toString NaN = ''NaN''"
| "toString (Num n) = (if n < 0 then CHR ''-'' # digits (nat (- n)) else digits (nat n))"

text \<open>The string a task id becomes when it is written to the \<open>data-task-id\<close> attribute.\<close>

fun toString_id :: "jsid \<Rightarrow> string" where
  "toString_id Null = ''null''"
| "toString_id (Number n) = toString n"

text \<open>
  \<open>parseInt(s)\<close> without a radix: skip leading white space, read a sign, read a \<open>0x\<close> prefix
  (hexadecimal), then the longest run of digits; \<open>NaN\<close> when there is no digit.
\<close>

definition digit_value :: "char \<Rightarrow> nat" where
  "digit_value c =
     (let n = (of_char c :: nat)
      in if 48 \<le> n \<and> n \<le> 57 then n - 48
         else if 97 \<le> n \<and> n \<le> 122 then n - 87
         else if 65 \<le> n \<and> n \<le> 90 then n - 55
         else 36)"

definition parseInt :: "string \<Rightarrow> jsnum" where
  "parseInt s =
     (let t = dropWhile isWhiteSpace s;
          neg = (take 1 t = ''-'');
          u = (if take 1 t = ''-'' \<or> take 1 t = ''+'' then drop 1 t else t);
          hex = (take 2 u = ''0x'' \<or> take 2 u = ''0X'');
          r = (if hex then 16 else 10);
          v = (if hex then drop 2 u else u);
          ds = takeWhile (\<lambda>c. digit_value c < r) v
      in if ds = [] then NaN
         else Num ((if neg then - 1 else 1) * int (foldl (\<lambda>a c. a * r + digit_value c) 0 ds)))"

subsection \<open>Tasks, storage and the application state\<close>

text \<open>
  A task object as \<open>addTask\<close> builds it. \<open>completedAt\<close> is an ISO time stamp or \<open>null\<close>.
\<close>

record task =
  task_id :: jsid
  task_text :: string
  completed :: bool
  createdAt :: string
  completedAt :: "string option"

text \<open>
  The text stored under the key \<open>todoApp_tasks\<close>, by what \<open>JSON.parse\<close> makes of it: the
  empty string, a text that \<open>JSON.parse\<close> rejects, a text that it reads as an array of
  task objects, or a text that it reads as a value that cannot be spread into an array
  (\<open>null\<close>, a boolean, a number, an object in braces). \<open>json_value\<close> is what \<open>JSON.parse\<close>
  returns. Texts that parse to a string, or to an array with an element that is not a task
  object, are outside the model.
\<close>

datatype json_text = EmptyText | Malformed | ArrayOf "task list" | NotIterableText

datatype json_value = TaskArray "task list" | NotIterable

text \<open>
  The exceptions of the model. \<open>DOMException\<close> is what the browser throws when it refuses
  access to the storage.
\<close>

datatype js_error = SyntaxError | TypeError | DOMException

fun JSON_parse :: "json_text \<Rightarrow> js_error + json_value" where
  "JSON_parse EmptyText = Inl SyntaxError"
| "JSON_parse Malformed = Inl SyntaxError"
| "JSON_parse (ArrayOf ts) = Inr (TaskArray ts)"
| "JSON_parse NotIterableText = Inr NotIterable"

text \<open>\<open>JSON.stringify\<close> writes \<open>null\<close> for the number \<open>NaN\<close>.\<close>

definition stringify_task :: "task \<Rightarrow> task" where
  "stringify_task t = (if task_id t = Number NaN then t\<lparr>task_id := Null\<rparr> else t)"

definition JSON_stringify :: "task list \<Rightarrow> json_text" where
  "JSON_stringify ts = ArrayOf (map stringify_task ts)"

text \<open>
  \<open>localStorage\<close>: the two entries the application uses (\<open>None\<close> is an absent key, for which
  \<open>getItem\<close> returns \<open>null\<close>), and whether the browser refuses reads or writes by throwing
  (storage disabled, quota exceeded).
\<close>

record local_storage =
  todoApp_tasks :: "json_text option"
  todoApp_taskIdCounter :: "string option"
  getItemThrows :: bool
  setItemThrows :: bool

text \<open>
  The fields of \<open>TodoApp\<close> and the browser state its methods use: \<open>taskInput\<close> is the value
  of the input box, \<open>taskList\<close> the \<open>data-task-id\<close> attributes of the list items in the page,
  \<open>timers\<close> the task ids captured by the pending callbacks of \<open>deleteTask\<close>, and
  \<open>notifications\<close> the messages shown so far with their types.
\<close>

record todo_app =
  tasks :: "task list"
  currentFilter :: string
  currentSearchTerm :: string
  taskIdCounter :: jsnum
  taskInput :: string
  taskList :: "string list"
  timers :: "jsnum list"
  notifications :: "(string \<times> string) list"
  localStorage :: local_storage

subsection \<open>Notifications and persistence\<close>

definition showNotification :: "string \<Rightarrow> string \<Rightarrow> todo_app \<Rightarrow> todo_app" where
  "showNotification message type s = s\<lparr>notifications := notifications s @ [(message, type)]\<rparr>"

text \<open>
  \<open>saveTasksToStorage\<close>: both \<open>setItem\<close> calls are inside one \<open>try\<close>; when the browser
  throws, nothing is written and an error notification is shown.
\<close>

definition saveTasksToStorage :: "todo_app \<Rightarrow> todo_app" where
  "saveTasksToStorage s =
     (if setItemThrows (localStorage s)
      then showNotification ''Failed to save tasks!'' ''error'' s
      else s\<lparr>localStorage := (localStorage s)
               \<lparr>todoApp_tasks := Some (JSON_stringify (tasks s)),
                todoApp_taskIdCounter := Some (toString (taskIdCounter s))\<rparr>\<rparr>)"

text \<open>
  \<open>loadTasksFromStorage\<close>: a stored text is used when it is truthy (neither \<open>null\<close> nor the
  empty string). Only an exception (from \<open>getItem\<close> or from \<open>JSON.parse\<close>) leads to the
  \<open>catch\<close> branch, which resets both fields and shows an error notification; \<open>parseInt\<close>
  never throws. \<open>catch_load\<close> is the \<open>catch\<close> branch and \<open>read_counter\<close> the statement
  \<open>if (savedCounter) this.taskIdCounter = parseInt(savedCounter)\<close>.

  \<open>this.tasks = JSON.parse(savedTasks)\<close> takes whatever value was parsed. The result says
  which: \<open>Loaded s\<close> when \<open>this.tasks\<close> is an array of tasks, with \<open>s\<close> the application state,
  and \<open>LoadedNotIterable s\<close> when \<open>this.tasks\<close> is a value that cannot be spread, with \<open>s\<close>
  giving the other fields.
\<close>

datatype loaded = Loaded todo_app | LoadedNotIterable todo_app

definition catch_load :: "todo_app \<Rightarrow> todo_app" where
  "catch_load s =
     (showNotification ''Failed to load saved tasks!'' ''error'' s)
       \<lparr>tasks := [], taskIdCounter := Num 1\<rparr>"

definition read_counter :: "string option \<Rightarrow> todo_app \<Rightarrow> todo_app" where
  "read_counter savedCounter s =
     (case savedCounter of
        None \<Rightarrow> s
      | Some c \<Rightarrow> if c = [] then s else s\<lparr>taskIdCounter := parseInt c\<rparr>)"

definition loadTasksFromStorage :: "todo_app \<Rightarrow> loaded" where
  "loadTasksFromStorage s =
     (if getItemThrows (localStorage s) then Loaded (catch_load s)
      else
        let savedTasks = todoApp_tasks (localStorage s);
            savedCounter = todoApp_taskIdCounter (localStorage s)
        in case savedTasks of
             None \<Rightarrow> Loaded (read_counter savedCounter s)
           | Some EmptyText \<Rightarrow> Loaded (read_counter savedCounter s)
           | Some j \<Rightarrow>
               (case JSON_parse j of
                  Inl e \<Rightarrow> Loaded (catch_load s)
                | Inr (TaskArray ts) \<Rightarrow> Loaded (read_counter savedCounter (s\<lparr>tasks := ts\<rparr>))
                | Inr NotIterable \<Rightarrow> LoadedNotIterable (read_counter savedCounter s)))"

subsection \<open>The filtered view and rendering\<close>

definition getFilteredTasks :: "todo_app \<Rightarrow> task list" where
  "getFilteredTasks s =
     (let filteredTasks = tasks s;
          filteredTasks = (if currentFilter s = ''completed''
                           then filter (\<lambda>task. completed task) filteredTasks
                           else if currentFilter s = ''pending''
                           then filter (\<lambda>task. \<not> completed task) filteredTasks
                           else filteredTasks);
          filteredTasks = (if currentSearchTerm s \<noteq> []
                           then filter (\<lambda>task. includes_str (toLowerCase (task_text task))
                                                   (currentSearchTerm s)) filteredTasks
                           else filteredTasks)
      in filteredTasks)"

text \<open>\<open>renderTasks\<close> rebuilds the list items of the page from the filtered view.\<close>

definition renderTasks :: "todo_app \<Rightarrow> todo_app" where
  "renderTasks s = s\<lparr>taskList := map (\<lambda>task. toString_id (task_id task)) (getFilteredTasks s)\<rparr>"

text \<open>\<open>document.querySelector(`[data-task-id="${taskId}"]`)\<close> finds an element or returns \<open>null\<close>.\<close>

definition taskElement_found :: "jsnum \<Rightarrow> todo_app \<Rightarrow> bool" where
  "taskElement_found taskId s = (toString taskId \<in> set (taskList s))"

subsection \<open>The operations\<close>

text \<open>
  How a method call ends: it returns a value, or an exception leaves it uncaught. None of
  the operations below (\<open>addTask\<close>, \<open>deleteTask\<close>, \<open>toggleTask\<close>, \<open>cancelEditTask\<close>,
  \<open>saveEditTask\<close>, \<open>setFilter\<close>) has a \<open>return\<close> with a value, so a call that returns,
  returns \<open>undefined\<close>; what happened is only shown to the user, as a notification.
\<close>

datatype js_value = Undefined | TaskObject task

datatype completion = Return js_value | Throw js_error

text \<open>\<open>addTask\<close> takes the text from the input box.\<close>

definition addTask :: "string \<Rightarrow> todo_app \<Rightarrow> completion \<times> todo_app" where
  "addTask now s =
     (let text = trim (taskInput s)
      in if text = [] then (Return Undefined, showNotification ''Please enter a task!'' ''warning'' s)
         else if length text > 200
         then (Return Undefined,
               showNotification ''Task is too long! Maximum 200 characters.'' ''warning'' s)
         else
           let task = \<lparr>task_id = Number (taskIdCounter s), task_text = text, completed = False,
                       createdAt = now, completedAt = None\<rparr>;
               s1 = s\<lparr>taskIdCounter := increment (taskIdCounter s)\<rparr>;
               s2 = s1\<lparr>tasks := task # tasks s1\<rparr>;
               s3 = s2\<lparr>taskInput := []\<rparr>;
               s4 = saveTasksToStorage s3;
               s5 = renderTasks s4
           in (Return Undefined, showNotification ''Task added successfully!'' ''success'' s5))"

text \<open>
  \<open>deleteTask\<close> only schedules the removal: when the list item is in the page it starts a
  timer of 300 ms whose callback captures \<open>taskId\<close>. \<open>deleteTask_timeout\<close> is that callback,
  and \<open>runTimer\<close> is the browser running the oldest pending callback.
\<close>

definition deleteTask :: "jsnum \<Rightarrow> todo_app \<Rightarrow> completion \<times> todo_app" where
  "deleteTask taskId s =
     (if taskElement_found taskId s then (Return Undefined, s\<lparr>timers := timers s @ [taskId]\<rparr>)
      else (Return Undefined, s))"

definition deleteTask_timeout :: "jsnum \<Rightarrow> todo_app \<Rightarrow> todo_app" where
  "deleteTask_timeout taskId s =
     (let s1 = s\<lparr>tasks := filter (\<lambda>task. \<not> strict_eq (task_id task) taskId) (tasks s)\<rparr>;
          s2 = saveTasksToStorage s1;
          s3 = renderTasks s2
      in showNotification ''Task deleted!'' ''success'' s3)"

definition runTimer :: "todo_app \<Rightarrow> todo_app" where
  "runTimer s =
     (case timers s of
        [] \<Rightarrow> s
      | taskId # rest \<Rightarrow> deleteTask_timeout taskId (s\<lparr>timers := rest\<rparr>))"

text \<open>
  \<open>this.tasks.find(...)\<close> returns the first matching task object, which is then changed in
  place: \<open>update_first\<close> is that change seen from the array.
\<close>

fun update_first :: "('a \<Rightarrow> bool) \<Rightarrow> ('a \<Rightarrow> 'a) \<Rightarrow> 'a list \<Rightarrow> 'a list" where
  "update_first p f [] = []"
| "update_first p f (x # xs) = (if p x then f x # xs else x # update_first p f xs)"

definition toggle_fields :: "string \<Rightarrow> task \<Rightarrow> task" where
  "toggle_fields now task =
     task\<lparr>completed := \<not> completed task,
          completedAt := (if \<not> completed task then Some now else None)\<rparr>"

definition toggleTask :: "string \<Rightarrow> jsnum \<Rightarrow> todo_app \<Rightarrow> completion \<times> todo_app" where
  "toggleTask now taskId s =
     (case find (\<lambda>t. strict_eq (task_id t) taskId) (tasks s) of
        None \<Rightarrow> (Return Undefined, s)
      | Some task \<Rightarrow>
          let s1 = s\<lparr>tasks := update_first (\<lambda>t. strict_eq (task_id t) taskId)
                                 (toggle_fields now) (tasks s)\<rparr>;
              s2 = saveTasksToStorage s1;
              s3 = renderTasks s2;
              status = (if completed (toggle_fields now task)
                        then ''completed'' else ''marked as pending'')
          in (Return Undefined, showNotification (''Task '' @ status @ ''!'') ''success'' s3))"

text \<open>
  \<open>cancelEditTask\<close> reads a property of the list item without checking that it was found,
  which is a \<open>TypeError\<close> when it was not; the rest of it only rewrites the page.
  \<open>saveEditTask\<close> calls it on invalid text, so the exception passes through.
\<close>

definition cancelEditTask :: "jsnum \<Rightarrow> todo_app \<Rightarrow> completion \<times> todo_app" where
  "cancelEditTask taskId s =
     (if taskElement_found taskId s then (Return Undefined, s) else (Throw TypeError, s))"

definition saveEditTask :: "jsnum \<Rightarrow> string \<Rightarrow> todo_app \<Rightarrow> completion \<times> todo_app" where
  "saveEditTask taskId newText s =
     (let trimmedText = trim newText
      in if trimmedText = []
         then cancelEditTask taskId (showNotification ''Task cannot be empty!'' ''warning'' s)
         else if length trimmedText > 200
         then cancelEditTask taskId
                (showNotification ''Task is too long! Maximum 200 characters.'' ''warning'' s)
         else case find (\<lambda>t. strict_eq (task_id t) taskId) (tasks s) of
                None \<Rightarrow> (Return Undefined, s)
              | Some task \<Rightarrow>
                  let s1 = s\<lparr>tasks := update_first (\<lambda>t. strict_eq (task_id t) taskId)
                                         (\<lambda>t. t\<lparr>task_text := trimmedText\<rparr>) (tasks s)\<rparr>;
                      s2 = saveTasksToStorage s1;
                      s3 = renderTasks s2
                  in (Return Undefined, showNotification ''Task updated!'' ''success'' s3))"

definition setFilter :: "string \<Rightarrow> todo_app \<Rightarrow> completion \<times> todo_app" where
  "setFilter filter_name s = (Return Undefined, renderTasks (s\<lparr>currentFilter := filter_name\<rparr>))"

text \<open>The \<open>input\<close> listener of the search box, bound in \<open>bindEvents\<close>.\<close>

definition searchInput_input :: "string \<Rightarrow> todo_app \<Rightarrow> todo_app" where
  "searchInput_input v s = renderTasks (s\<lparr>currentSearchTerm := toLowerCase v\<rparr>)"

text \<open>
  \<open>new TodoApp()\<close> on a page with the given storage: the constructor's initial fields,
  then \<open>init\<close>. \<open>init\<close> calls \<open>loadTasksFromStorage\<close>, then \<open>loadThemeFromStorage\<close>, whose
  \<open>localStorage.getItem\<close> is not inside a \<open>try\<close>, then \<open>bindEvents\<close>, then \<open>renderTasks\<close>,
  which spreads \<open>this.tasks\<close> in \<open>getFilteredTasks\<close>: a \<open>TypeError\<close> when that value cannot
  be spread. An exception leaves \<open>init\<close> and the constructor uncaught: \<open>Inl\<close> is that
  exception, and then there is no application to use; \<open>Inr\<close> is the application state
  when the constructor returns.
\<close>

definition constructor :: "local_storage \<Rightarrow> todo_app" where
  "constructor st =
     \<lparr>tasks = [], currentFilter = ''all'', currentSearchTerm = [], taskIdCounter = Num 1,
      taskInput = [], taskList = [], timers = [], notifications = [], localStorage = st\<rparr>"

definition loadThemeFromStorage :: "todo_app \<Rightarrow> js_error + todo_app" where
  "loadThemeFromStorage s =
     (if getItemThrows (localStorage s) then Inl DOMException else Inr s)"

definition init :: "todo_app \<Rightarrow> js_error + todo_app" where
  "init s =
     (case loadTasksFromStorage s of
        Loaded s1 \<Rightarrow>
          (case loadThemeFromStorage s1 of
             Inl e \<Rightarrow> Inl e
           | Inr s2 \<Rightarrow> Inr (renderTasks s2))
      | LoadedNotIterable s1 \<Rightarrow>
          (case loadThemeFromStorage s1 of
             Inl e \<Rightarrow> Inl e
           | Inr s2 \<Rightarrow> Inl TypeError))"

definition new_TodoApp :: "local_storage \<Rightarrow> js_error + todo_app" where
  "new_TodoApp st = init (constructor st)"

subsection \<open>Sessions\<close>

text \<open>
  The events of a session: what the user and the browser's timer make the application do.
  \<open>AddTask now input\<close> is the user typing \<open>input\<close> into the box and adding it at time \<open>now\<close>.
  \<open>step\<close> is the state after one event (an uncaught exception ends the handler and leaves
  the state as it is then), \<open>run\<close> the state after a list of events. \<open>issued_by e s\<close> is the
  id given to a new task by the event: a task was created exactly when the list grew, and
  it is then the first of the list. \<open>issued\<close> collects these ids over a run, oldest first.
\<close>

datatype event =
    AddTask string string
  | ToggleTask string jsnum
  | SaveEditTask jsnum string
  | DeleteTask jsnum
  | RunTimer
  | SetFilter string
  | SearchInput string

fun step :: "event \<Rightarrow> todo_app \<Rightarrow> todo_app" where
  "step (AddTask now input) s = snd (addTask now (s\<lparr>taskInput := input\<rparr>))"
| "step (ToggleTask now taskId) s = snd (toggleTask now taskId s)"
| "step (SaveEditTask taskId newText) s = snd (saveEditTask taskId newText s)"
| "step (DeleteTask taskId) s = snd (deleteTask taskId s)"
| "step RunTimer s = runTimer s"
| "step (SetFilter filter_name) s = snd (setFilter filter_name s)"
| "step (SearchInput v) s = searchInput_input v s"

fun run :: "event list \<Rightarrow> todo_app \<Rightarrow> todo_app" where
  "run [] s = s"
| "run (e # es) s = run es (step e s)"

fun issued_by :: "event \<Rightarrow> todo_app \<Rightarrow> jsid list" where
  "issued_by (AddTask now input) s =
     (let s' = step (AddTask now input) s
      in if length (tasks s) < length (tasks s') then [task_id (hd (tasks s'))] else [])"
| "issued_by e s = []"

fun issued :: "event list \<Rightarrow> todo_app \<Rightarrow> jsid list" where
  "issued [] s = []"
| "issued (e # es) s = issued_by e s @ issued es (step e s)"

text \<open>
  \<open>storage_works\<close>: the browser accepts reads and writes. \<open>stored s\<close>: the storage holds
  what \<open>saveTasksToStorage\<close> writes for the tasks and the counter of \<open>s\<close>. \<open>same_store s s'\<close>:
  tasks, counter and storage are the same in both states. \<open>reload_restores s\<close>: creating a
  \<open>TodoApp\<close> from the storage of \<open>s\<close> succeeds and gives the tasks and the counter of \<open>s\<close>.
\<close>

definition reload_restores :: "todo_app \<Rightarrow> bool" where
  "reload_restores s =
     (case new_TodoApp (localStorage s) of
        Inl e \<Rightarrow> False
      | Inr s' \<Rightarrow> tasks s' = tasks s \<and> taskIdCounter s' = taskIdCounter s)"

definition storage_works :: "todo_app \<Rightarrow> bool" where
  "storage_works s = (\<not> setItemThrows (localStorage s) \<and> \<not> getItemThrows (localStorage s))"

definition stored :: "todo_app \<Rightarrow> bool" where
  "stored s =
     (todoApp_tasks (localStorage s) = Some (JSON_stringify (tasks s)) \<and>
      todoApp_taskIdCounter (localStorage s) = Some (toString (taskIdCounter s)))"

definition same_store :: "todo_app \<Rightarrow> todo_app \<Rightarrow> bool" where
  "same_store s s' =
     (tasks s' = tasks s \<and> taskIdCounter s' = taskIdCounter s \<and> localStorage s' = localStorage s)"

subsection \<open>The specification's filtered view and the id invariant\<close>








text \<open>Every task in the list has an integer id below \<open>c\<close>.\<close>

definition ids_below :: "int \<Rightarrow> task list \<Rightarrow> bool" where
  "ids_below c ts = (\<forall>t \<in> set ts. \<exists>i. task_id t = Number (Num i) \<and> i < c)"

subsection \<open>Example values\<close>

text \<open>
  A storage with neither entry, as on the first visit; two tasks; and the application
  states after adding the first and then the second of them on the first visit.
\<close>

definition empty_storage :: local_storage where
  "empty_storage = \<lparr>todoApp_tasks = None, todoApp_taskIdCounter = None,
                     getItemThrows = False, setItemThrows = False\<rparr>"

definition buy_milk :: task where
  "buy_milk = \<lparr>task_id = Number (Num 1), task_text = ''Buy milk'', completed = False,
               createdAt = ''2024-05-01T09:00:00.000Z'', completedAt = None\<rparr>"

definition done_milk :: task where
  "done_milk = buy_milk\<lparr>completed := True, completedAt := Some ''2024-05-02T18:30:00.000Z''\<rparr>"

definition buy_eggs :: task where
  "buy_eggs = \<lparr>task_id = Number (Num 2), task_text = ''Buy eggs'', completed = False,
               createdAt = ''2024-05-01T09:05:00.000Z'', completedAt = None\<rparr>"

definition milk_app :: todo_app where
  "milk_app =
     \<lparr>tasks = [buy_milk], currentFilter = ''all'', currentSearchTerm = [], taskIdCounter = Num 2,
      taskInput = [], taskList = [''1''], timers = [],
      notifications = [(''Task added successfully!'', ''success'')],
      localStorage = \<lparr>todoApp_tasks = Some (ArrayOf [buy_milk]),
                       todoApp_taskIdCounter = Some ''2'',
                       getItemThrows = False, setItemThrows = False\<rparr>\<rparr>"

definition eggs_app :: todo_app where
  "eggs_app =
     \<lparr>tasks = [buy_eggs, buy_milk], currentFilter = ''all'', currentSearchTerm = [],
      taskIdCounter = Num 3, taskInput = [], taskList = [''2'', ''1''], timers = [],
      notifications = [(''Task added successfully!'', ''success''),
                       (''Task added successfully!'', ''success'')],
      localStorage = \<lparr>todoApp_tasks = Some (ArrayOf [buy_eggs, buy_milk]),
                       todoApp_taskIdCounter = Some ''3'',
                       getItemThrows = False, setItemThrows = False\<rparr>\<rparr>"

text \<open>A session: add a task, delete it, let the timer run, add another task.\<close>

definition session :: "event list" where
  "session = [AddTask ''2024-05-01T09:00:00.000Z'' ''Buy milk'', DeleteTask (Num 1), RunTimer,
              AddTask ''2024-05-01T09:05:00.000Z'' ''Buy eggs'']"


section \<open>Properties of the string functions\<close>

lemma lowerChar_idem: "lowerChar (lowerChar c) = lowerChar c"
  by (auto simp add: lowerChar_def Let_def)

lemma toLowerCase_idem: "toLowerCase (toLowerCase s) = toLowerCase s"
  by (simp add: toLowerCase_def lowerChar_idem)


lemma less_10_cases:
  "d < 10 \<Longrightarrow> d = 0 \<or> d = 1 \<or> d = 2 \<or> d = 3 \<or> d = 4 \<or> d = 5 \<or> d = 6 \<or> d = 7 \<or> d = 8 \<or> d = (9::nat)"
  by arith

lemma digit_char_in: "d < 10 \<Longrightarrow> digit_char d \<in> set ''0123456789''"
  by (drule less_10_cases) (auto simp add: digit_char_def)

lemma digit_value_digit_char: "d < 10 \<Longrightarrow> digit_value (digit_char d) = d"
  by (drule less_10_cases) (auto simp add: digit_char_def digit_value_def)

lemma digits_chars: "set (digits n) \<subseteq> set ''0123456789''"
proof (induction n rule: digits.induct)
  case (1 n)
  show ?case
  proof (cases "n < 10")
    case True
    then show ?thesis using digit_char_in [of n] by (simp add: digits.simps [of n])
  next
    case False
    have "n mod 10 < 10" by simp
    then have "digit_char (n mod 10) \<in> set ''0123456789''" by (rule digit_char_in)
    with False 1 show ?thesis by (simp add: digits.simps [of n])
  qed
qed

lemma digits_not_Nil: "digits n \<noteq> []"
  by (simp add: digits.simps [of n])

lemma digits_value: "foldl (\<lambda>a c. a * 10 + digit_value c) 0 (digits n) = n"
proof (induction n rule: digits.induct)
  case (1 n)
  show ?case
  proof (cases "n < 10")
    case True
    then show ?thesis by (simp add: digits.simps [of n] digit_value_digit_char)
  next
    case False
    with 1 show ?thesis by (simp add: digits.simps [of n] digit_value_digit_char)
  qed
qed

lemma digit_chars_facts:
  assumes "c \<in> set ''0123456789''"
  shows "\<not> isWhiteSpace c" and "c \<noteq> CHR ''-''" and "c \<noteq> CHR ''+''" and "c \<noteq> CHR ''x''"
    and "c \<noteq> CHR ''X''" and "digit_value c < 10"
  using assms by (auto simp add: isWhiteSpace_def digit_value_def)

lemma no_hex_prefix:
  assumes "\<forall>x \<in> set u. x \<in> set ''0123456789''"
  shows "take 2 u \<noteq> ''0x'' \<and> take 2 u \<noteq> ''0X''"
proof (cases u)
  case Nil
  then show ?thesis by simp
next
  case (Cons a v)
  show ?thesis
  proof (cases v)
    case Nil
    with Cons show ?thesis by simp
  next
    case (Cons b w)
    with \<open>u = a # v\<close> assms have "b \<in> set ''0123456789''" by simp
    then have "b \<noteq> CHR ''x''" "b \<noteq> CHR ''X''"
      by (rule digit_chars_facts(4), rule digit_chars_facts(5))
    with Cons \<open>u = a # v\<close> show ?thesis by simp
  qed
qed

lemma parseInt_digits: "parseInt (digits n) = Num (int n)"
proof -
  obtain c cs where cs: "digits n = c # cs"
    using digits_not_Nil [of n] unfolding neq_Nil_conv by blast
  have all: "\<forall>x \<in> set (c # cs). x \<in> set ''0123456789''"
    using digits_chars [of n] unfolding cs by blast
  have c: "c \<in> set ''0123456789''" using all by (simp only: list.set_intros ball_simps list.set insert_iff bex_triv_one_point1 simp_thms)
  have w: "dropWhile isWhiteSpace (c # cs) = c # cs"
    using digit_chars_facts(1) [OF c] by simp
  have nohex: "take 2 (c # cs) \<noteq> ''0x''" "take 2 (c # cs) \<noteq> ''0X''"
    using all by (rule no_hex_prefix [THEN conjunct1], rule no_hex_prefix [THEN conjunct2])
  have tw: "takeWhile (\<lambda>c. digit_value c < 10) (c # cs) = c # cs"
    using all digit_chars_facts(6) by (intro takeWhile_eq_all_conv [THEN iffD2]) blast
  have f: "foldl (\<lambda>a c. a * 10 + digit_value c) 0 (c # cs) = n"
    using digits_value [of n] by (simp only: cs)
  have s1: "take 1 (c # cs) \<noteq> ''-''" "take 1 (c # cs) \<noteq> ''+''"
    using digit_chars_facts(2,3) [OF c] by simp_all
  show ?thesis
    unfolding cs parseInt_def Let_def w
    apply (simp only: s1 nohex tw if_False simp_thms)
    apply (simp only: f)
    apply simp
    done
qed

lemma parseInt_minus_digits: "parseInt (CHR ''-'' # digits n) = Num (- int n)"
proof -
  obtain c cs where cs: "digits n = c # cs"
    using digits_not_Nil [of n] unfolding neq_Nil_conv by blast
  have all: "\<forall>x \<in> set (c # cs). x \<in> set ''0123456789''"
    using digits_chars [of n] unfolding cs by blast
  have nohex: "take 2 (c # cs) \<noteq> ''0x''" "take 2 (c # cs) \<noteq> ''0X''"
    using all by (rule no_hex_prefix [THEN conjunct1], rule no_hex_prefix [THEN conjunct2])
  have tw: "takeWhile (\<lambda>c. digit_value c < 10) (c # cs) = c # cs"
    using all digit_chars_facts(6) by (intro takeWhile_eq_all_conv [THEN iffD2]) blast
  have w: "\<not> isWhiteSpace CHR ''-''"
    by (simp add: isWhiteSpace_def)
  have f: "foldl (\<lambda>a c. a * 10 + digit_value c) 0 (c # cs) = n"
    using digits_value [of n] by (simp only: cs)
  have d: "dropWhile isWhiteSpace (CHR ''-'' # c # cs) = CHR ''-'' # c # cs"
    using w by simp
  have s1: "take 1 (CHR ''-'' # c # cs) = ''-''" "drop 1 (CHR ''-'' # c # cs) = c # cs"
    by simp_all
  show ?thesis
    unfolding cs parseInt_def Let_def d
    apply (simp only: s1 nohex tw if_False if_True simp_thms)
    apply (simp only: f)
    apply simp
    done
qed

text \<open>Reading back a printed integer gives the integer, so printing is injective.\<close>

lemma parseInt_toString: "parseInt (toString (Num n)) = Num n"
  by (simp add: parseInt_digits parseInt_minus_digits)

lemma parseInt_NaN: "parseInt ''NaN'' = NaN"
  by (simp add: parseInt_def isWhiteSpace_def digit_value_def)

lemma parseInt_null: "parseInt ''null'' = NaN"
  by (simp add: parseInt_def isWhiteSpace_def digit_value_def)

lemma toString_id_eq_Num:
  assumes "toString_id i = toString (Num n)"
  shows "i = Number (Num n)"
proof -
  have p: "parseInt (toString_id i) = Num n"
    using assms parseInt_toString [of n] by (simp del: toString.simps)
  show ?thesis
  proof (cases i)
    case Null
    with p show ?thesis by (simp add: parseInt_null)
  next
    case (Number x)
    show ?thesis
    proof (cases x)
      case NaN
      with p Number show ?thesis by (simp add: parseInt_NaN)
    next
      case (Num m)
      with p Number have "Num m = Num n"
        using parseInt_toString [of m] by (simp del: toString.simps)
      with Num Number show ?thesis by simp
    qed
  qed
qed

lemma toString_not_Nil: "toString n \<noteq> []"
  by (cases n) (simp_all add: digits_not_Nil)

lemma toString_1: "toString (Num 1) = ''1''" and toString_2: "toString (Num 2) = ''2''"
  and toString_3: "toString (Num 3) = ''3''" and toString_7: "toString (Num 7) = ''7''"
  by (simp_all add: digits.simps digit_char_def)








section \<open>Properties of the operations\<close>

subsection \<open>The example states are reached by the application\<close>

lemma increment_safe: "safe_integer c \<Longrightarrow> increment (Num c) = Num (c + 1)"
  by (simp add: safe_integer_def)

text \<open>Outside that range the counter can stay where it is.\<close>

lemma increment_at_2_53: "increment (Num 9007199254740992) = Num 9007199254740992"
  by simp

lemma new_TodoApp_empty: "new_TodoApp empty_storage = Inr (constructor empty_storage)"
  by (simp add: new_TodoApp_def init_def constructor_def empty_storage_def
      loadTasksFromStorage_def loadThemeFromStorage_def catch_load_def read_counter_def
      renderTasks_def getFilteredTasks_def)

lemma milk_app_reached:
  "snd (addTask ''2024-05-01T09:00:00.000Z''
          ((constructor empty_storage)\<lparr>taskInput := ''Buy milk''\<rparr>)) = milk_app"
  by (simp add: addTask_def Let_def trim_def isWhiteSpace_def constructor_def empty_storage_def
      showNotification_def saveTasksToStorage_def renderTasks_def getFilteredTasks_def milk_app_def
      buy_milk_def JSON_stringify_def stringify_task_def toString_1 toString_2 del: toString.simps)

lemma eggs_app_reached:
  "snd (addTask ''2024-05-01T09:05:00.000Z'' (milk_app\<lparr>taskInput := ''Buy eggs''\<rparr>)) = eggs_app"
  by (simp add: addTask_def Let_def trim_def isWhiteSpace_def milk_app_def eggs_app_def
      showNotification_def saveTasksToStorage_def renderTasks_def getFilteredTasks_def
      buy_milk_def buy_eggs_def JSON_stringify_def stringify_task_def
      toString_1 toString_2 toString_3 del: toString.simps)

subsection \<open>Changing the first matching element\<close>

lemma update_first_no_match: "find p xs = None \<Longrightarrow> update_first p f xs = xs"
  by (induction xs) (auto split: if_splits)

lemma update_first_fixed: "find p xs = Some x \<Longrightarrow> f x = x \<Longrightarrow> update_first p f xs = xs"
  by (induction xs) (auto split: if_splits)

lemma length_update_first: "length (update_first p f xs) = length xs"
  by (induction xs) auto

lemma map_update_first: "(\<And>x. h (f x) = h x) \<Longrightarrow> map h (update_first p f xs) = map h xs"
  by (induction xs) auto

lemma nth_update_first:
  "j < length xs \<Longrightarrow> \<not> p (xs ! j) \<Longrightarrow> update_first p f xs ! j = xs ! j"
proof (induction xs arbitrary: j)
  case Nil
  then show ?case by simp
next
  case (Cons x xs)
  then show ?case by (cases j) auto
qed

lemma update_first_twice:
  "(\<And>x. p x \<Longrightarrow> p (f x)) \<Longrightarrow>
   update_first p g (update_first p f xs) = update_first p (\<lambda>x. g (f x)) xs"
  by (induction xs) auto

lemma toggle_fields_twice:
  "toggle_fields now2 (toggle_fields now1 t)
     = t\<lparr>completedAt := (if completed t then Some now2 else None)\<rparr>"
  by (simp add: toggle_fields_def)

lemma task_id_toggle_fields: "task_id (toggle_fields now t) = task_id t"
  by (simp add: toggle_fields_def)

lemma tasks_toggleTask:
  "tasks (snd (toggleTask now taskId s))
     = update_first (\<lambda>t. strict_eq (task_id t) taskId) (toggle_fields now) (tasks s)"
  by (cases "find (\<lambda>t. strict_eq (task_id t) taskId) (tasks s)")
     (simp_all add: toggleTask_def Let_def showNotification_def saveTasksToStorage_def
       renderTasks_def update_first_no_match del: toString.simps)

subsection \<open>Fields the operations do not touch\<close>

lemma frame_toggleTask:
  "taskIdCounter (snd (toggleTask now taskId s)) = taskIdCounter s \<and>
   currentFilter (snd (toggleTask now taskId s)) = currentFilter s \<and>
   currentSearchTerm (snd (toggleTask now taskId s)) = currentSearchTerm s"
  by (cases "find (\<lambda>t. strict_eq (task_id t) taskId) (tasks s)")
     (simp_all add: toggleTask_def Let_def showNotification_def saveTasksToStorage_def
       renderTasks_def del: toString.simps)

lemma tasks_saveEditTask:
  "trim newText \<noteq> [] \<Longrightarrow> length (trim newText) \<le> 200 \<Longrightarrow>
   tasks (snd (saveEditTask taskId newText s))
     = update_first (\<lambda>t. strict_eq (task_id t) taskId) (\<lambda>t. t\<lparr>task_text := trim newText\<rparr>) (tasks s)"
  by (cases "find (\<lambda>t. strict_eq (task_id t) taskId) (tasks s)")
     (simp_all add: saveEditTask_def Let_def showNotification_def saveTasksToStorage_def
       renderTasks_def update_first_no_match del: toString.simps)

lemma frame_saveEditTask:
  "taskIdCounter (snd (saveEditTask taskId newText s)) = taskIdCounter s \<and>
   currentFilter (snd (saveEditTask taskId newText s)) = currentFilter s \<and>
   currentSearchTerm (snd (saveEditTask taskId newText s)) = currentSearchTerm s"
  by (cases "find (\<lambda>t. strict_eq (task_id t) taskId) (tasks s)")
     (simp_all add: saveEditTask_def cancelEditTask_def Let_def showNotification_def
       saveTasksToStorage_def renderTasks_def del: toString.simps)

lemma frame_deleteTask:
  "tasks (snd (deleteTask taskId s)) = tasks s \<and>
   taskIdCounter (snd (deleteTask taskId s)) = taskIdCounter s \<and>
   currentFilter (snd (deleteTask taskId s)) = currentFilter s \<and>
   currentSearchTerm (snd (deleteTask taskId s)) = currentSearchTerm s \<and>
   localStorage (snd (deleteTask taskId s)) = localStorage s \<and>
   fst (deleteTask taskId s) = Return Undefined"
  by (simp add: deleteTask_def)

lemma frame_deleteTask_timeout:
  "tasks (deleteTask_timeout taskId s) = filter (\<lambda>t. \<not> strict_eq (task_id t) taskId) (tasks s) \<and>
   taskIdCounter (deleteTask_timeout taskId s) = taskIdCounter s \<and>
   currentFilter (deleteTask_timeout taskId s) = currentFilter s \<and>
   currentSearchTerm (deleteTask_timeout taskId s) = currentSearchTerm s"
  by (simp add: deleteTask_timeout_def Let_def showNotification_def saveTasksToStorage_def
      renderTasks_def del: toString.simps)

lemma runTimer_after_deleteTask:
  assumes "taskElement_found taskId s" and "timers s = []"
  shows "runTimer (snd (deleteTask taskId s)) = deleteTask_timeout taskId s"
proof -
  have e: "s\<lparr>timers := []\<rparr> = s" using assms(2) by (cases s) simp
  have "runTimer (snd (deleteTask taskId s)) = deleteTask_timeout taskId (s\<lparr>timers := []\<rparr>)"
    using assms by (simp add: deleteTask_def runTimer_def)
  then show ?thesis by (simp only: e)
qed

subsection \<open>List items and unknown ids\<close>

lemma set_getFilteredTasks: "set (getFilteredTasks s) \<subseteq> set (tasks s)"
  by (auto simp add: getFilteredTasks_def Let_def)

lemma not_found_on_page:
  assumes absent: "\<forall>t \<in> set (tasks s). \<not> strict_eq (task_id t) (Num n)"
    and page: "taskList s = taskList (renderTasks s)"
  shows "\<not> taskElement_found (Num n) s"
proof
  assume "taskElement_found (Num n) s"
  then have "toString (Num n) \<in> set (map (\<lambda>task. toString_id (task_id task)) (getFilteredTasks s))"
    using page by (simp add: taskElement_found_def renderTasks_def del: toString.simps)
  then obtain t where t: "t \<in> set (getFilteredTasks s)" "toString_id (task_id t) = toString (Num n)"
    by (auto simp del: toString.simps)
  from t(2) have "task_id t = Number (Num n)" by (rule toString_id_eq_Num)
  moreover from t(1) have "t \<in> set (tasks s)" using set_getFilteredTasks by blast
  ultimately show False using absent by auto
qed

lemma find_absent:
  "\<forall>t \<in> set xs. \<not> p t \<Longrightarrow> find p xs = None"
  by (induction xs) auto

subsection \<open>Loading\<close>

lemma load_failed:
  assumes "getItemThrows (localStorage s) \<or> todoApp_tasks (localStorage s) = Some Malformed"
  shows "loadTasksFromStorage s = Loaded (catch_load s)"
  using assms by (auto simp add: loadTasksFromStorage_def Let_def)

lemma load_absent:
  assumes "\<not> getItemThrows (localStorage s)"
    and "todoApp_tasks (localStorage s) = None \<or> todoApp_tasks (localStorage s) = Some EmptyText"
    and "todoApp_taskIdCounter (localStorage s) = None \<or> todoApp_taskIdCounter (localStorage s) = Some []"
  shows "loadTasksFromStorage s = Loaded s"
  using assms by (auto simp add: loadTasksFromStorage_def read_counter_def Let_def)

lemma load_array:
  assumes "\<not> getItemThrows (localStorage s)" and "todoApp_tasks (localStorage s) = Some (ArrayOf ts)"
  shows "loadTasksFromStorage s
           = Loaded (read_counter (todoApp_taskIdCounter (localStorage s)) (s\<lparr>tasks := ts\<rparr>))"
  using assms by (simp add: loadTasksFromStorage_def Let_def)

lemma load_not_iterable:
  assumes "\<not> getItemThrows (localStorage s)" and "todoApp_tasks (localStorage s) = Some NotIterableText"
  shows "loadTasksFromStorage s
           = LoadedNotIterable (read_counter (todoApp_taskIdCounter (localStorage s)) s)"
  using assms by (simp add: loadTasksFromStorage_def Let_def)

text \<open>What \<open>new TodoApp()\<close> does, for every storage of the model.\<close>

lemma new_TodoApp_cases:
  "(getItemThrows st \<longrightarrow> new_TodoApp st = Inl DOMException) \<and>
   (\<not> getItemThrows st \<and> todoApp_tasks st = Some NotIterableText \<longrightarrow>
      new_TodoApp st = Inl TypeError) \<and>
   (\<not> getItemThrows st \<and> todoApp_tasks st = Some Malformed \<longrightarrow>
      new_TodoApp st = Inr (catch_load (constructor st))) \<and>
   (\<not> getItemThrows st \<and> (todoApp_tasks st = None \<or> todoApp_tasks st = Some EmptyText) \<longrightarrow>
      new_TodoApp st = Inr (read_counter (todoApp_taskIdCounter st) (constructor st))) \<and>
   (\<forall>ts. \<not> getItemThrows st \<and> todoApp_tasks st = Some (ArrayOf ts) \<longrightarrow>
      new_TodoApp st
        = Inr (renderTasks (read_counter (todoApp_taskIdCounter st) ((constructor st)\<lparr>tasks := ts\<rparr>))))"
  by (auto simp add: new_TodoApp_def init_def loadTasksFromStorage_def loadThemeFromStorage_def
      catch_load_def read_counter_def showNotification_def renderTasks_def getFilteredTasks_def
      constructor_def Let_def split: option.splits)

lemma stringify_ids_below:
  assumes "ids_below c ts"
  shows "JSON_stringify ts = ArrayOf ts"
proof -
  have "stringify_task t = t" if "t \<in> set ts" for t
    using assms that by (auto simp add: ids_below_def stringify_task_def)
  then have "map stringify_task ts = ts" by (rule map_idI)
  then show ?thesis by (simp add: JSON_stringify_def)
qed

lemma load_saved:
  assumes "\<not> getItemThrows st" and "todoApp_tasks st = Some (ArrayOf ts)"
    and "todoApp_taskIdCounter st = Some (toString (Num c))"
  shows "\<exists>s'. new_TodoApp st = Inr s' \<and> tasks s' = ts \<and> taskIdCounter s' = Num c"
  using assms toString_not_Nil [of "Num c"] parseInt_toString [of c]
  by (simp add: new_TodoApp_def init_def constructor_def loadTasksFromStorage_def
      loadThemeFromStorage_def catch_load_def read_counter_def Let_def renderTasks_def
      del: toString.simps)

subsection \<open>The ids stay below the counter\<close>

lemma ids_below_map: "map task_id ts' = map task_id ts \<Longrightarrow> ids_below c ts \<Longrightarrow> ids_below c ts'"
proof -
  assume m: "map task_id ts' = map task_id ts" and b: "ids_below c ts"
  have "\<exists>i. task_id t = Number (Num i) \<and> i < c" if "t \<in> set ts'" for t
  proof -
    from that have "task_id t \<in> set (map task_id ts)" unfolding m [symmetric] by simp
    then obtain u where "u \<in> set ts" "task_id u = task_id t" by auto
    with b show ?thesis unfolding ids_below_def by metis
  qed
  then show ?thesis by (simp add: ids_below_def)
qed

lemma tasks_saveEditTask_invalid:
  "trim newText = [] \<or> 200 < length (trim newText) \<Longrightarrow>
   tasks (snd (saveEditTask taskId newText s)) = tasks s"
  by (auto simp add: saveEditTask_def cancelEditTask_def Let_def showNotification_def)

lemma ids_below_preserved:
  assumes "ids_below c (tasks s)"
  shows "ids_below c (tasks (snd (toggleTask now taskId s)))"
    and "ids_below c (tasks (snd (saveEditTask taskId newText s)))"
    and "ids_below c (tasks (snd (deleteTask taskId s)))"
    and "ids_below c (tasks (deleteTask_timeout taskId s))"
    and "ids_below c (tasks (snd (setFilter filter_name s)))"
    and "ids_below c (tasks (searchInput_input typed s))"
proof -
  show "ids_below c (tasks (snd (toggleTask now taskId s)))"
    unfolding tasks_toggleTask
    by (rule ids_below_map [OF _ assms]) (simp add: map_update_first task_id_toggle_fields)
  show "ids_below c (tasks (snd (saveEditTask taskId newText s)))"
  proof (cases "trim newText = [] \<or> 200 < length (trim newText)")
    case True
    then show ?thesis using assms by (simp add: tasks_saveEditTask_invalid)
  next
    case False
    then have v: "trim newText \<noteq> []" "length (trim newText) \<le> 200" by auto
    show ?thesis
      unfolding tasks_saveEditTask [OF v]
      by (rule ids_below_map [OF _ assms]) (simp add: map_update_first)
  qed
  show "ids_below c (tasks (snd (deleteTask taskId s)))"
    using assms by (simp add: deleteTask_def)
  show "ids_below c (tasks (deleteTask_timeout taskId s))"
    using assms by (simp add: frame_deleteTask_timeout ids_below_def)
  show "ids_below c (tasks (snd (setFilter filter_name s)))"
    using assms by (simp add: setFilter_def renderTasks_def)
  show "ids_below c (tasks (searchInput_input typed s))"
    using assms by (simp add: searchInput_input_def renderTasks_def)
qed

subsection \<open>Ids and reloads along a session\<close>

lemma tasks_runTimer:
  "taskIdCounter (runTimer s) = taskIdCounter s \<and>
   (\<exists>p. tasks (runTimer s) = filter p (tasks s))"
proof (cases "timers s")
  case Nil
  then have "runTimer s = s" by (simp add: runTimer_def)
  moreover have "tasks s = filter (\<lambda>_. True) (tasks s)" by simp
  ultimately show ?thesis by metis
next
  case (Cons i rest)
  then have "runTimer s = deleteTask_timeout i (s\<lparr>timers := rest\<rparr>)" by (simp add: runTimer_def)
  then show ?thesis using frame_deleteTask_timeout [of i "s\<lparr>timers := rest\<rparr>"] by auto
qed

lemma ids_below_filter: "ids_below c ts \<Longrightarrow> ids_below c (filter p ts)"
  by (simp add: ids_below_def)

lemma addTask_invalid_state:
  "trim input = [] \<or> 200 < length (trim input) \<Longrightarrow>
   tasks (snd (addTask now (s\<lparr>taskInput := input\<rparr>))) = tasks s \<and>
   taskIdCounter (snd (addTask now (s\<lparr>taskInput := input\<rparr>))) = taskIdCounter s \<and>
   localStorage (snd (addTask now (s\<lparr>taskInput := input\<rparr>))) = localStorage s"
  by (auto simp add: addTask_def Let_def showNotification_def)

lemma addTask_valid_state:
  "trim input \<noteq> [] \<Longrightarrow> length (trim input) \<le> 200 \<Longrightarrow>
   tasks (snd (addTask now (s\<lparr>taskInput := input\<rparr>)))
     = \<lparr>task_id = Number (taskIdCounter s), task_text = trim input, completed = False,
        createdAt = now, completedAt = None\<rparr> # tasks s \<and>
   taskIdCounter (snd (addTask now (s\<lparr>taskInput := input\<rparr>))) = increment (taskIdCounter s)"
  by (simp add: addTask_def Let_def showNotification_def saveTasksToStorage_def renderTasks_def
      del: toString.simps)

lemma step_issue:
  assumes "taskIdCounter s = Num c" and "ids_below c (tasks s)" and "safe_integer c"
  shows "(issued_by e s = [] \<and> taskIdCounter (step e s) = Num c \<and> ids_below c (tasks (step e s))) \<or>
         (issued_by e s = [Number (Num c)] \<and> taskIdCounter (step e s) = Num (c + 1) \<and>
          ids_below (c + 1) (tasks (step e s)))"
proof (cases e)
  case (AddTask now input)
  show ?thesis
  proof (cases "trim input = [] \<or> 200 < length (trim input)")
    case True
    then show ?thesis
      using assms addTask_invalid_state [of input now s] by (simp add: AddTask)
  next
    case False
    then have v: "trim input \<noteq> []" "length (trim input) \<le> 200" by auto
    have "ids_below (c + 1) (tasks (step e s))"
      using assms(2) addTask_valid_state [OF v, of now s]
      by (fastforce simp add: AddTask assms(1) ids_below_def)
    then show ?thesis
      using assms(1) addTask_valid_state [OF v, of now s] increment_safe [OF assms(3)]
      by (simp add: AddTask del: increment.simps)
  qed
next
  case (ToggleTask now i)
  then show ?thesis
    using assms ids_below_preserved(1) [OF assms(2), of now i] frame_toggleTask [of now i s] by simp
next
  case (SaveEditTask i t)
  then show ?thesis
    using assms ids_below_preserved(2) [OF assms(2), of i t] frame_saveEditTask [of i t s] by simp
next
  case (DeleteTask i)
  then show ?thesis
    using assms frame_deleteTask [of i s] by simp
next
  case RunTimer
  then show ?thesis
    using assms tasks_runTimer [of s] ids_below_filter [OF assms(2)] by auto
next
  case (SetFilter f)
  then show ?thesis using assms by (simp add: setFilter_def renderTasks_def)
next
  case (SearchInput v)
  then show ?thesis using assms by (simp add: searchInput_input_def renderTasks_def)
qed

lemma safe_integer_between:
  assumes "safe_integer a" and "safe_integer b" and "a \<le> x" and "x \<le> b"
  shows "safe_integer x"
  using assms by (simp add: safe_integer_def)

lemma issued_run:
  assumes "taskIdCounter s = Num c" and "ids_below c (tasks s)"
    and "safe_integer c" and "safe_integer (c + int (length (issued es s)))"
  shows "issued es s = map (\<lambda>k. Number (Num (c + int k))) [0..<length (issued es s)] \<and>
         taskIdCounter (run es s) = Num (c + int (length (issued es s))) \<and>
         ids_below (c + int (length (issued es s))) (tasks (run es s))"
  using assms
proof (induction es arbitrary: s c)
  case Nil
  then show ?case by simp
next
  case (Cons e es)
  from step_issue [OF Cons.prems(1,2,3), of e]
  show ?case
  proof
    assume a: "issued_by e s = [] \<and> taskIdCounter (step e s) = Num c \<and>
               ids_below c (tasks (step e s))"
    then show ?thesis using Cons.IH [of "step e s" c] Cons.prems(3,4) by simp
  next
    assume b: "issued_by e s = [Number (Num c)] \<and> taskIdCounter (step e s) = Num (c + 1) \<and>
               ids_below (c + 1) (tasks (step e s))"
    let ?n = "length (issued es (step e s))"
    have top: "safe_integer (c + 1 + int ?n)"
      using Cons.prems(4) b by (simp add: add.assoc)
    have s1: "safe_integer (c + 1)"
      using Cons.prems(3) top by (rule safe_integer_between) simp_all
    from b s1 top Cons.IH [of "step e s" "c + 1"]
    have ih: "issued es (step e s) = map (\<lambda>k. Number (Num (c + 1 + int k))) [0..<?n]"
      and cnt: "taskIdCounter (run es (step e s)) = Num (c + 1 + int ?n)"
      and below: "ids_below (c + 1 + int ?n) (tasks (run es (step e s)))"
      by simp_all
    have len: "length (issued (e # es) s) = Suc ?n"
      using b by simp
    have m: "map (\<lambda>k. Number (Num (c + int k))) [0..<Suc ?n]
               = Number (Num c) # map (\<lambda>k. Number (Num (c + 1 + int k))) [0..<?n]"
      by (simp add: map_upt_Suc add.assoc del: upt_Suc)
    have i: "issued (e # es) s = Number (Num c) # issued es (step e s)"
      using b by simp
    have e1: "issued (e # es) s
                = map (\<lambda>k. Number (Num (c + int k))) [0..<length (issued (e # es) s)]"
      unfolding len m unfolding i using ih by simp
    have k: "c + 1 + int ?n = c + int (length (issued (e # es) s))"
      unfolding len by simp
    have e2: "taskIdCounter (run (e # es) s) = Num (c + int (length (issued (e # es) s)))"
      using cnt unfolding k by simp
    have e3: "ids_below (c + int (length (issued (e # es) s))) (tasks (run (e # es) s))"
      using below unfolding k by simp
    show ?thesis using e1 e2 e3 by blast
  qed
qed

lemma step_store:
  assumes "storage_works s"
  shows "storage_works (step e s) \<and> (stored (step e s) \<or> same_store s (step e s))"
proof -
  have w: "\<not> setItemThrows (localStorage s)" using assms by (simp add: storage_works_def)
  show ?thesis
  proof (cases e)
    case (AddTask now input)
    show ?thesis
    proof (cases "trim input = [] \<or> 200 < length (trim input)")
      case True
      then show ?thesis
        using assms addTask_invalid_state [of input now s]
        by (simp add: AddTask same_store_def storage_works_def)
    next
      case False
      then show ?thesis
        using assms
        by (simp add: AddTask addTask_def Let_def stored_def storage_works_def showNotification_def
            renderTasks_def saveTasksToStorage_def del: toString.simps)
    qed
  next
    case (ToggleTask now i)
    show ?thesis
      using assms
      by (cases "find (\<lambda>t. strict_eq (task_id t) i) (tasks s)")
         (simp_all add: ToggleTask toggleTask_def Let_def stored_def same_store_def storage_works_def
           showNotification_def renderTasks_def saveTasksToStorage_def del: toString.simps)
  next
    case (SaveEditTask i t)
    show ?thesis
      using assms
      by (cases "find (\<lambda>t. strict_eq (task_id t) i) (tasks s)")
         (simp_all add: SaveEditTask saveEditTask_def cancelEditTask_def Let_def stored_def
           same_store_def storage_works_def showNotification_def renderTasks_def
           saveTasksToStorage_def del: toString.simps)
  next
    case (DeleteTask i)
    then show ?thesis
      using assms by (simp add: deleteTask_def same_store_def storage_works_def)
  next
    case RunTimer
    show ?thesis
      using assms
      by (cases "timers s")
         (simp_all add: RunTimer runTimer_def deleteTask_timeout_def Let_def stored_def
           same_store_def storage_works_def showNotification_def renderTasks_def
           saveTasksToStorage_def del: toString.simps)
  next
    case (SetFilter f)
    then show ?thesis
      using assms by (simp add: setFilter_def renderTasks_def same_store_def storage_works_def)
  next
    case (SearchInput v)
    then show ?thesis
      using assms
      by (simp add: searchInput_input_def renderTasks_def same_store_def storage_works_def)
  qed
qed

lemma stored_reload:
  assumes "stored s" and "storage_works s" and "taskIdCounter s = Num c" and "ids_below c (tasks s)"
  shows "reload_restores s"
proof -
  have "\<exists>s'. new_TodoApp (localStorage s) = Inr s' \<and> tasks s' = tasks s \<and>
             taskIdCounter s' = Num c"
  proof (rule load_saved)
    show "\<not> getItemThrows (localStorage s)" using assms(2) by (simp add: storage_works_def)
    show "todoApp_tasks (localStorage s) = Some (ArrayOf (tasks s))"
      using assms(1) stringify_ids_below [OF assms(4)] by (simp add: stored_def)
    show "todoApp_taskIdCounter (localStorage s) = Some (toString (Num c))"
      using assms(1,3) by (simp add: stored_def del: toString.simps)
  qed
  then show ?thesis using assms(3) by (auto simp add: reload_restores_def)
qed

lemma run_reload:
  assumes "taskIdCounter s = Num c" and "ids_below c (tasks s)"
    and "safe_integer c" and "safe_integer (c + int (length (issued es s)))"
    and "storage_works s" and "reload_restores s"
  shows "reload_restores (run es s)"
  using assms
proof (induction es arbitrary: s c)
  case Nil
  then show ?case by simp
next
  case (Cons e es)
  let ?n = "length (issued es (step e s))"
  from step_issue [OF Cons.prems(1,2,3), of e]
  have "\<exists>c'. taskIdCounter (step e s) = Num c' \<and> ids_below c' (tasks (step e s)) \<and>
             safe_integer c' \<and> safe_integer (c' + int ?n)"
  proof
    assume a: "issued_by e s = [] \<and> taskIdCounter (step e s) = Num c \<and>
               ids_below c (tasks (step e s))"
    then show ?thesis using Cons.prems(3,4) by auto
  next
    assume b: "issued_by e s = [Number (Num c)] \<and> taskIdCounter (step e s) = Num (c + 1) \<and>
               ids_below (c + 1) (tasks (step e s))"
    have top: "safe_integer (c + 1 + int ?n)"
      using Cons.prems(4) b by (simp add: add.assoc)
    have s1: "safe_integer (c + 1)"
      using Cons.prems(3) top by (rule safe_integer_between) simp_all
    show ?thesis using b s1 top by blast
  qed
  then obtain c' where c': "taskIdCounter (step e s) = Num c'" "ids_below c' (tasks (step e s))"
    and sf: "safe_integer c'" "safe_integer (c' + int ?n)"
    by blast
  from step_store [OF Cons.prems(5), of e]
  have w: "storage_works (step e s)" and d: "stored (step e s) \<or> same_store s (step e s)"
    by simp_all
  have "reload_restores (step e s)"
    using d
  proof
    assume "stored (step e s)"
    then show ?thesis using w c' by (rule stored_reload)
  next
    assume "same_store s (step e s)"
    then show ?thesis
      using Cons.prems(6) by (simp add: same_store_def reload_restores_def split: sum.splits)
  qed
  with c' sf w show ?case using Cons.IH [of "step e s" c'] by simp
qed

lemma session_issued:
  "issued session (constructor empty_storage) = [Number (Num 1), Number (Num 2)] \<and>
   map task_id (tasks (run session (constructor empty_storage))) = [Number (Num 2)]"
  by (simp add: session_def addTask_def deleteTask_def runTimer_def deleteTask_timeout_def
      taskElement_found_def Let_def trim_def isWhiteSpace_def constructor_def empty_storage_def
      showNotification_def saveTasksToStorage_def renderTasks_def getFilteredTasks_def
      toString_1 toString_2 del: toString.simps)

lemma run_append: "run (es @ fs) s = run fs (run es s)"
  by (induction es arbitrary: s) auto

lemma issued_append: "issued (es @ fs) s = issued es s @ issued fs (run es s)"
  by (induction es arbitrary: s) auto

lemma issued_by_valid:
  assumes "trim input \<noteq> []" and "length (trim input) \<le> 200"
  shows "issued_by (AddTask now input) s = [Number (taskIdCounter s)]"
  using addTask_valid_state [OF assms, of now s] by (simp add: Let_def)

lemma localStorage_new_TodoApp: "new_TodoApp st = Inr s \<Longrightarrow> localStorage s = st"
  by (auto simp add: new_TodoApp_def init_def loadTasksFromStorage_def loadThemeFromStorage_def
      catch_load_def read_counter_def Let_def renderTasks_def showNotification_def constructor_def
      split: option.splits json_text.splits sum.splits if_splits)




lemma reload_restores_new_TodoApp: "new_TodoApp st = Inr s \<Longrightarrow> reload_restores s"
  using localStorage_new_TodoApp [of st s] by (simp add: reload_restores_def)

subsection \<open>The search session\<close>




section \<open>The claims\<close>

subsection \<open>Adding a task\<close>

text \<open>
  Claim C1, as far as the code goes. \<open>addTask\<close> trims the text of the input box. When the
  trimmed text is empty or longer than 200 characters, the task list, the counter and the
  storage stay as they were and one warning notification is shown. Otherwise the new task
  has the old counter as its id, the trimmed text, \<open>completed = false\<close>, \<open>createdAt = now\<close>
  and no \<open>completedAt\<close>; it is put in front of the list and, when the browser accepts the
  write, the storage holds the new list. When the counter is an integer \<open>c\<close> in the range
  that doubles hold exactly (below \<open>2^53\<close> in size), the counter becomes \<open>c + 1\<close> and,
  when the browser accepts the write, the storage holds the decimal digits of \<open>c + 1\<close>.
  In both cases the call returns \<open>undefined\<close>: the created task is not returned, it is
  the first element of the list.
\<close>

theorem addTask_effect:
  "fst (addTask now (s\<lparr>taskInput := input\<rparr>)) = Return Undefined \<and>
   (let s' = snd (addTask now (s\<lparr>taskInput := input\<rparr>))
    in if trim input = [] \<or> 200 < length (trim input)
       then tasks s' = tasks s \<and> taskIdCounter s' = taskIdCounter s \<and>
            localStorage s' = localStorage s \<and>
            (\<exists>message. notifications s' = notifications s @ [(message, ''warning'')])
       else tasks s' = \<lparr>task_id = Number (taskIdCounter s), task_text = trim input,
                          completed = False, createdAt = now, completedAt = None\<rparr> # tasks s \<and>
            (\<not> setItemThrows (localStorage s) \<longrightarrow>
               notifications s' = notifications s @ [(''Task added successfully!'', ''success'')] \<and>
               todoApp_tasks (localStorage s') = Some (JSON_stringify (tasks s'))) \<and>
            (\<forall>c. taskIdCounter s = Num c \<and> safe_integer c \<longrightarrow>
               taskIdCounter s' = Num (c + 1) \<and>
               (\<not> setItemThrows (localStorage s) \<longrightarrow>
                  todoApp_taskIdCounter (localStorage s') = Some (toString (Num (c + 1))))))"
  by (simp add: addTask_def Let_def showNotification_def saveTasksToStorage_def renderTasks_def
      safe_integer_def del: toString.simps)

text \<open>
  Claim C1, an instance: on the first visit, with \<open>" Buy milk "\<close> in the input box, the
  list becomes the single task \<open>buy_milk\<close> with id 1, the counter becomes 2 and the stored
  counter is \<open>"2"\<close>.
\<close>

theorem addTask_effect_witness:
  "trim '' Buy milk '' \<noteq> [] \<and> length (trim '' Buy milk '') \<le> 200 \<and>
   \<not> setItemThrows (localStorage (constructor empty_storage)) \<and>
   taskIdCounter (constructor empty_storage) = Num 1 \<and> safe_integer 1 \<and>
   tasks (snd (addTask ''2024-05-01T09:00:00.000Z''
                 ((constructor empty_storage)\<lparr>taskInput := '' Buy milk ''\<rparr>))) = [buy_milk] \<and>
   taskIdCounter (snd (addTask ''2024-05-01T09:00:00.000Z''
                 ((constructor empty_storage)\<lparr>taskInput := '' Buy milk ''\<rparr>))) = Num 2 \<and>
   todoApp_taskIdCounter (localStorage (snd (addTask ''2024-05-01T09:00:00.000Z''
                 ((constructor empty_storage)\<lparr>taskInput := '' Buy milk ''\<rparr>)))) = Some ''2''"
  using addTask_effect [where now = "''2024-05-01T09:00:00.000Z''" and s = "constructor empty_storage"
      and input = "'' Buy milk ''"]
  by (simp add: Let_def trim_def isWhiteSpace_def constructor_def empty_storage_def buy_milk_def
      safe_integer_def toString_2 del: toString.simps)

text \<open>
  Claim C1 as stated fails: it has \<open>addTask\<close> return the created task, and fail with an
  error on invalid text. With \<open>"Buy milk"\<close> in the input box the task is created but the
  call returns \<open>undefined\<close>, not the task; with only spaces in the input box the call
  returns \<open>undefined\<close> as well, after a warning notification.
\<close>

theorem addTask_returns_undefined:
  "fst (addTask ''2024-05-01T09:00:00.000Z''
          ((constructor empty_storage)\<lparr>taskInput := ''Buy milk''\<rparr>)) = Return Undefined \<and>
   tasks (snd (addTask ''2024-05-01T09:00:00.000Z''
          ((constructor empty_storage)\<lparr>taskInput := ''Buy milk''\<rparr>))) = [buy_milk] \<and>
   fst (addTask ''2024-05-01T09:00:00.000Z''
          ((constructor empty_storage)\<lparr>taskInput := ''Buy milk''\<rparr>)) \<noteq> Return (TaskObject buy_milk) \<and>
   addTask ''2024-05-01T09:00:00.000Z'' ((constructor empty_storage)\<lparr>taskInput := ''   ''\<rparr>)
     = (Return Undefined,
        showNotification ''Please enter a task!'' ''warning''
          ((constructor empty_storage)\<lparr>taskInput := ''   ''\<rparr>))"
  by (simp add: addTask_def Let_def trim_def isWhiteSpace_def constructor_def empty_storage_def
      buy_milk_def showNotification_def saveTasksToStorage_def renderTasks_def del: toString.simps)

subsection \<open>Fresh ids\<close>

text \<open>
  Claim C2, within what the code guarantees. Take a session that starts in a state whose
  counter is an integer \<open>c\<close> above the integer ids of all its tasks (the state of a first
  visit is one), with all numbers in the range that doubles hold exactly. Then the ids
  given to new tasks during the session are \<open>c\<close>, \<open>c + 1\<close>, \<open>c + 2\<close>, ... in this order,
  whatever else happens in between, deletions included; the counter ends above all of them
  and above every id in the list; and a valid text added next gets the next id, which is
  greater than every id issued before. The counter is stored next to the tasks: when the
  browser accepts reads and writes and a reload would restore the starting state (as it
  does for every state that was just hydrated, \<open>reload_restores_new_TodoApp\<close>), a reload
  after the session restores its tasks and its counter, so that the next session starts
  above all ids again.
\<close>

theorem ids_increase_in_session:
  assumes "taskIdCounter s = Num c" and "ids_below c (tasks s)"
    and "safe_integer c" and "safe_integer (c + int (length (issued es s)) + 1)"
  shows "issued es s = map (\<lambda>k. Number (Num (c + int k))) [0..<length (issued es s)] \<and>
         taskIdCounter (run es s) = Num (c + int (length (issued es s))) \<and>
         ids_below (c + int (length (issued es s))) (tasks (run es s)) \<and>
         (trim input \<noteq> [] \<and> length (trim input) \<le> 200 \<longrightarrow>
            issued (es @ [AddTask now input]) s
              = issued es s @ [Number (Num (c + int (length (issued es s))))]) \<and>
         (storage_works s \<and> reload_restores s \<longrightarrow> reload_restores (run es s))"
proof -
  let ?n = "int (length (issued es s))"
  have top: "safe_integer (c + ?n)"
    using assms(3,4) by (rule safe_integer_between) simp_all
  note r = issued_run [OF assms(1,2,3) top]
  have a: "issued (es @ [AddTask now input]) s
             = issued es s @ [Number (Num (c + int (length (issued es s))))]"
    if "trim input \<noteq> []" "length (trim input) \<le> 200"
    using r issued_by_valid [OF that, of now "run es s"] by (simp add: issued_append)
  have b: "reload_restores (run es s)" if "storage_works s" "reload_restores s"
    using assms(1,2,3) top that by (rule run_reload)
  show ?thesis using r a b by blast
qed

text \<open>
  Claim C2, an instance: on a first visit, \<open>"Buy milk"\<close> gets the id 1 and is deleted,
  \<open>"Buy eggs"\<close> gets the id 2, \<open>"Buy bread"\<close> would get 3, the counter is 3, and a reload
  restores the tasks and the counter.
\<close>

theorem ids_increase_in_session_witness:
  "new_TodoApp empty_storage = Inr (constructor empty_storage) \<and>
   taskIdCounter (constructor empty_storage) = Num 1 \<and> tasks (constructor empty_storage) = [] \<and>
   safe_integer 1 \<and> safe_integer (1 + int (length (issued session (constructor empty_storage))) + 1) \<and>
   trim ''Buy bread'' \<noteq> [] \<and> length (trim ''Buy bread'') \<le> 200 \<and>
   storage_works (constructor empty_storage) \<and> reload_restores (constructor empty_storage) \<and>
   issued session (constructor empty_storage) = [Number (Num 1), Number (Num 2)] \<and>
   issued (session @ [AddTask ''2024-05-01T09:10:00.000Z'' ''Buy bread'']) (constructor empty_storage)
     = [Number (Num 1), Number (Num 2), Number (Num 3)] \<and>
   taskIdCounter (run session (constructor empty_storage)) = Num 3 \<and>
   reload_restores (run session (constructor empty_storage))"
proof -
  have i: "issued session (constructor empty_storage) = [Number (Num 1), Number (Num 2)]"
    using session_issued by simp
  have s0: "taskIdCounter (constructor empty_storage) = Num 1" "tasks (constructor empty_storage) = []"
    "storage_works (constructor empty_storage)"
    by (simp_all add: constructor_def storage_works_def) (simp add: empty_storage_def)
  have v: "trim ''Buy bread'' \<noteq> []" "length (trim ''Buy bread'') \<le> 200"
    by (simp_all add: trim_def isWhiteSpace_def)
  have safe: "safe_integer 1"
    "safe_integer (1 + int (length (issued session (constructor empty_storage))) + 1)"
    by (simp_all add: i safe_integer_def)
  have b: "ids_below 1 (tasks (constructor empty_storage))"
    by (simp add: s0 ids_below_def)
  have r: "reload_restores (constructor empty_storage)"
    using new_TodoApp_empty by (rule reload_restores_new_TodoApp)
  from ids_increase_in_session [OF s0(1) b safe, of "''Buy bread''" "''2024-05-01T09:10:00.000Z''"]
  show ?thesis
    using i s0 v safe r new_TodoApp_empty by simp
qed

text \<open>
  Claim C2 as stated fails: hydration takes the counter from the storage as it finds it and
  never compares it with an id. On a first visit where the browser rejects every write
  (\<open>setItem\<close> throws, which \<open>saveTasksToStorage\<close> catches), \<open>"Buy milk"\<close> gets the id 1 and
  nothing is stored; a reload gives the state of the first visit again, with the counter 1,
  and there \<open>"Buy eggs"\<close> also gets the id 1, which is not greater than the id issued before
  the reload.
\<close>

theorem id_reissued_after_failed_save:
  "new_TodoApp (empty_storage\<lparr>setItemThrows := True\<rparr>)
     = Inr (constructor (empty_storage\<lparr>setItemThrows := True\<rparr>)) \<and>
   map task_id (tasks (snd (addTask ''2024-05-01T09:00:00.000Z''
      ((constructor (empty_storage\<lparr>setItemThrows := True\<rparr>))\<lparr>taskInput := ''Buy milk''\<rparr>))))
     = [Number (Num 1)] \<and>
   new_TodoApp (localStorage (snd (addTask ''2024-05-01T09:00:00.000Z''
      ((constructor (empty_storage\<lparr>setItemThrows := True\<rparr>))\<lparr>taskInput := ''Buy milk''\<rparr>))))
     = Inr (constructor (empty_storage\<lparr>setItemThrows := True\<rparr>)) \<and>
   map task_id (tasks (snd (addTask ''2024-05-01T09:05:00.000Z''
      ((constructor (empty_storage\<lparr>setItemThrows := True\<rparr>))\<lparr>taskInput := ''Buy eggs''\<rparr>))))
     = [Number (Num 1)]"
  by (simp add: new_TodoApp_def init_def constructor_def loadTasksFromStorage_def
      loadThemeFromStorage_def catch_load_def read_counter_def Let_def
      renderTasks_def getFilteredTasks_def empty_storage_def addTask_def trim_def isWhiteSpace_def
      showNotification_def saveTasksToStorage_def del: toString.simps)

subsection \<open>Deleting a task\<close>

text \<open>
  Claim C3, as the code does it. \<open>deleteTask\<close> returns without changing the task list or
  the storage. When the list item of the task is in the page it starts a timer, and the
  timer's callback, which the browser runs 300 ms later, removes every task with that id,
  writes the remaining list to the storage when the browser accepts the write, and leaves
  no task with that id in the list.
\<close>

theorem deleteTask_deferred:
  "fst (deleteTask taskId s) = Return Undefined \<and>
   tasks (snd (deleteTask taskId s)) = tasks s \<and>
   localStorage (snd (deleteTask taskId s)) = localStorage s \<and>
   (taskElement_found taskId s \<longrightarrow> timers (snd (deleteTask taskId s)) = timers s @ [taskId]) \<and>
   (taskElement_found taskId s \<longrightarrow> timers s = [] \<longrightarrow>
      runTimer (snd (deleteTask taskId s)) = deleteTask_timeout taskId s) \<and>
   (let s' = deleteTask_timeout taskId s
    in tasks s' = filter (\<lambda>task. \<not> strict_eq (task_id task) taskId) (tasks s) \<and>
       (\<forall>task \<in> set (tasks s'). \<not> strict_eq (task_id task) taskId) \<and>
       (\<not> setItemThrows (localStorage s) \<longrightarrow>
          todoApp_tasks (localStorage s') = Some (JSON_stringify (tasks s')) \<and>
          todoApp_taskIdCounter (localStorage s') = Some (toString (taskIdCounter s))))"
  using runTimer_after_deleteTask [of taskId s]
  by (simp add: deleteTask_def deleteTask_timeout_def Let_def showNotification_def
      saveTasksToStorage_def renderTasks_def del: toString.simps)

text \<open>
  Claim C3, an instance: deleting \<open>"Buy milk"\<close> leaves it in the list until the timer runs;
  then the list and the stored array are empty.
\<close>

theorem deleteTask_deferred_witness:
  "taskElement_found (Num 1) milk_app \<and> timers milk_app = [] \<and>
   \<not> setItemThrows (localStorage milk_app) \<and>
   tasks (snd (deleteTask (Num 1) milk_app)) = [buy_milk] \<and>
   tasks (runTimer (snd (deleteTask (Num 1) milk_app))) = [] \<and>
   todoApp_tasks (localStorage (runTimer (snd (deleteTask (Num 1) milk_app)))) = Some (ArrayOf [])"
  using deleteTask_deferred [where s = milk_app and taskId = "Num 1"]
  by (simp add: Let_def milk_app_def buy_milk_def taskElement_found_def toString_1
      JSON_stringify_def del: toString.simps)

text \<open>
  Claim C3 as stated fails: removal is not immediate. When \<open>deleteTask(1)\<close> returns, the
  task with id 1 is still in the list and in the stored array; the only change is the
  pending timer.
\<close>

theorem deleteTask_not_immediate:
  "strict_eq (task_id buy_milk) (Num 1) \<and> tasks milk_app = [buy_milk] \<and>
   deleteTask (Num 1) milk_app = (Return Undefined, milk_app\<lparr>timers := [Num 1]\<rparr>) \<and>
   tasks (snd (deleteTask (Num 1) milk_app)) = [buy_milk] \<and>
   todoApp_tasks (localStorage (snd (deleteTask (Num 1) milk_app))) = Some (ArrayOf [buy_milk])"
  by (simp add: deleteTask_def taskElement_found_def milk_app_def buy_milk_def toString_1
      del: toString.simps)

subsection \<open>Unknown ids\<close>

text \<open>
  Claim C4, as the code does it. For an id that no task of the list has, \<open>toggleTask\<close> and
  \<open>saveEditTask\<close> with valid text return \<open>undefined\<close> and change nothing at all: no
  notification is shown and nothing is thrown. \<open>deleteTask\<close> returns \<open>undefined\<close> with the
  task list, the counter, the storage and the notifications unchanged; when the page shows the
  current filtered view and the id is a number other than \<open>NaN\<close>, no list item matches and
  \<open>deleteTask\<close> changes nothing either.
\<close>

theorem unknown_id_ignored:
  assumes "\<forall>t \<in> set (tasks s). \<not> strict_eq (task_id t) taskId"
    and "trim newText \<noteq> []" and "length (trim newText) \<le> 200"
  shows "toggleTask now taskId s = (Return Undefined, s) \<and>
         saveEditTask taskId newText s = (Return Undefined, s) \<and>
         fst (deleteTask taskId s) = Return Undefined \<and>
         tasks (snd (deleteTask taskId s)) = tasks s \<and>
         taskIdCounter (snd (deleteTask taskId s)) = taskIdCounter s \<and>
         localStorage (snd (deleteTask taskId s)) = localStorage s \<and>
         notifications (snd (deleteTask taskId s)) = notifications s \<and>
         (taskList s = taskList (renderTasks s) \<longrightarrow> taskId \<noteq> NaN \<longrightarrow>
            deleteTask taskId s = (Return Undefined, s))"
proof -
  have f: "find (\<lambda>t. strict_eq (task_id t) taskId) (tasks s) = None"
    using assms(1) by (rule find_absent)
  have d: "deleteTask taskId s = (Return Undefined, s)"
    if "taskList s = taskList (renderTasks s)" "taskId \<noteq> NaN"
  proof -
    from that(2) obtain n where n: "taskId = Num n" by (cases taskId) auto
    have "\<not> taskElement_found (Num n) s"
      using assms(1) that(1) unfolding n by (rule not_found_on_page)
    then show ?thesis by (simp add: deleteTask_def n)
  qed
  show ?thesis
    using assms(2,3) f d by (simp add: toggleTask_def saveEditTask_def deleteTask_def)
qed

text \<open>
  Claim C4, an instance: the id 7 in the state that holds only \<open>"Buy milk"\<close> with id 1.
\<close>

theorem unknown_id_ignored_witness:
  "tasks milk_app = [buy_milk] \<and> \<not> strict_eq (task_id buy_milk) (Num 7) \<and>
   trim ''Buy bread'' \<noteq> [] \<and> length (trim ''Buy bread'') \<le> 200 \<and>
   taskList milk_app = taskList (renderTasks milk_app) \<and> Num 7 \<noteq> NaN \<and>
   toggleTask ''2024-05-02T18:30:00.000Z'' (Num 7) milk_app = (Return Undefined, milk_app) \<and>
   saveEditTask (Num 7) ''Buy bread'' milk_app = (Return Undefined, milk_app) \<and>
   deleteTask (Num 7) milk_app = (Return Undefined, milk_app)"
  using unknown_id_ignored [where s = milk_app and taskId = "Num 7" and newText = "''Buy bread''"
      and now = "''2024-05-02T18:30:00.000Z''"]
  by (simp add: milk_app_def buy_milk_def trim_def isWhiteSpace_def renderTasks_def
      getFilteredTasks_def toString_1 del: toString.simps)

text \<open>
  Claim C4 as stated fails: no operation fails for an unknown id. With only the task 1 in
  the list, \<open>toggleTask(7)\<close>, \<open>saveEditTask(7, "Buy bread")\<close> and \<open>deleteTask(7)\<close> return
  \<open>undefined\<close> and leave the whole state, notifications included, as it was: there is no
  error and no sign of one.
\<close>

theorem unknown_id_no_error:
  "tasks milk_app = [buy_milk] \<and> \<not> strict_eq (task_id buy_milk) (Num 7) \<and>
   toggleTask ''2024-05-02T18:30:00.000Z'' (Num 7) milk_app = (Return Undefined, milk_app) \<and>
   saveEditTask (Num 7) ''Buy bread'' milk_app = (Return Undefined, milk_app) \<and>
   deleteTask (Num 7) milk_app = (Return Undefined, milk_app)"
  by (simp add: toggleTask_def saveEditTask_def deleteTask_def taskElement_found_def
      milk_app_def buy_milk_def trim_def isWhiteSpace_def toString_7 del: toString.simps)

subsection \<open>Toggling twice\<close>

text \<open>
  Claim C5, as the code does it. After two calls of \<open>toggleTask\<close> with the same id, every
  task has its original \<open>completed\<close> flag, and the list is the original one except for the
  \<open>completedAt\<close> of the first task with that id: it is \<open>null\<close> when the task was pending, and
  the time of the second call when the task was completed. So a pending task without
  \<open>completedAt\<close> is restored exactly.
\<close>

theorem toggleTask_twice:
  "(let s2 = snd (toggleTask now2 taskId (snd (toggleTask now1 taskId s)))
    in map completed (tasks s2) = map completed (tasks s) \<and>
       tasks s2 = update_first (\<lambda>t. strict_eq (task_id t) taskId)
                    (\<lambda>t. t\<lparr>completedAt := (if completed t then Some now2 else None)\<rparr>) (tasks s) \<and>
       (\<forall>t. find (\<lambda>t. strict_eq (task_id t) taskId) (tasks s) = Some t \<longrightarrow>
            \<not> completed t \<longrightarrow> completedAt t = None \<longrightarrow> tasks s2 = tasks s))"
proof -
  let ?p = "\<lambda>t. strict_eq (task_id t) taskId"
  let ?g = "\<lambda>t. t\<lparr>completedAt := (if completed t then Some now2 else None)\<rparr>"
  have eq: "tasks (snd (toggleTask now2 taskId (snd (toggleTask now1 taskId s))))
              = update_first ?p ?g (tasks s)"
    by (simp add: tasks_toggleTask update_first_twice task_id_toggle_fields toggle_fields_twice)
  have m: "map completed (update_first ?p ?g (tasks s)) = map completed (tasks s)"
    by (rule map_update_first) simp
  have r: "update_first ?p ?g (tasks s) = tasks s"
    if "find ?p (tasks s) = Some t" "\<not> completed t" "completedAt t = None" for t
    using that by (intro update_first_fixed [of ?p _ t]) simp_all
  show ?thesis
    unfolding Let_def eq using m r by blast
qed

text \<open>
  Claim C5, an instance: the pending task \<open>"Buy milk"\<close>, toggled twice, is as before.
\<close>

theorem toggleTask_twice_witness:
  "find (\<lambda>t. strict_eq (task_id t) (Num 1)) (tasks milk_app) = Some buy_milk \<and>
   \<not> completed buy_milk \<and> completedAt buy_milk = None \<and>
   tasks (snd (toggleTask ''2024-05-03T08:00:00.000Z'' (Num 1)
            (snd (toggleTask ''2024-05-02T18:30:00.000Z'' (Num 1) milk_app)))) = tasks milk_app"
  using toggleTask_twice [where s = milk_app and taskId = "Num 1"
      and ?now1.0 = "''2024-05-02T18:30:00.000Z''" and ?now2.0 = "''2024-05-03T08:00:00.000Z''"]
  by (simp add: Let_def milk_app_def buy_milk_def)

text \<open>
  Claim C5 as stated fails for a completed task. \<open>"Buy milk"\<close>, completed on 2 May, is
  toggled on 3 May and again on 4 May: it is completed again, but \<open>completedAt\<close> is now the
  4 May time stamp, not the original one.
\<close>

theorem toggleTask_twice_new_completedAt:
  "tasks (snd (toggleTask ''2024-05-02T18:30:00.000Z'' (Num 1) milk_app)) = [done_milk] \<and>
   tasks (snd (toggleTask ''2024-05-04T12:00:00.000Z'' (Num 1)
            (snd (toggleTask ''2024-05-03T08:00:00.000Z'' (Num 1)
               (snd (toggleTask ''2024-05-02T18:30:00.000Z'' (Num 1) milk_app))))))
     = [done_milk\<lparr>completedAt := Some ''2024-05-04T12:00:00.000Z''\<rparr>] \<and>
   done_milk\<lparr>completedAt := Some ''2024-05-04T12:00:00.000Z''\<rparr> \<noteq> done_milk"
  by (simp add: tasks_toggleTask toggle_fields_def milk_app_def buy_milk_def done_milk_def)

subsection \<open>The filtered view\<close>



subsection \<open>Editing with invalid text\<close>

text \<open>
  Claim C7, as the code does it. When the new text trims to the empty string or to more than
  200 characters, \<open>saveEditTask\<close> leaves the task list (so the text of every task), the
  counter, the storage, the filter and the search term unchanged and shows one warning
  notification. It does not fail with an error: when the list item of the task is in the
  page, the call returns \<open>undefined\<close>.
\<close>

theorem saveEditTask_invalid:
  assumes "trim newText = [] \<or> 200 < length (trim newText)"
  shows "(let s' = snd (saveEditTask taskId newText s)
          in tasks s' = tasks s \<and> taskIdCounter s' = taskIdCounter s \<and>
             localStorage s' = localStorage s \<and> currentFilter s' = currentFilter s \<and>
             currentSearchTerm s' = currentSearchTerm s \<and>
             (\<exists>message. notifications s' = notifications s @ [(message, ''warning'')])) \<and>
         (taskElement_found taskId s \<longrightarrow> fst (saveEditTask taskId newText s) = Return Undefined)"
  using assms
  by (auto simp add: saveEditTask_def cancelEditTask_def Let_def showNotification_def
      taskElement_found_def simp del: toString.simps)

text \<open>
  Claim C7, an instance: editing \<open>"Buy milk"\<close> to three spaces leaves the task as it was.
\<close>

theorem saveEditTask_invalid_witness:
  "(trim ''   '' = [] \<or> 200 < length (trim ''   '')) \<and> taskElement_found (Num 1) milk_app \<and>
   tasks (snd (saveEditTask (Num 1) ''   '' milk_app)) = [buy_milk] \<and>
   fst (saveEditTask (Num 1) ''   '' milk_app) = Return Undefined"
  using saveEditTask_invalid [where s = milk_app and taskId = "Num 1" and newText = "''   ''"]
  by (simp add: Let_def trim_def isWhiteSpace_def milk_app_def taskElement_found_def toString_1
      del: toString.simps)

text \<open>
  Claim C7 as stated fails: the rejected edit is not an error of the call. Editing task 1 to
  three spaces returns \<open>undefined\<close> after the warning notification. And when the task is in
  the list but its list item is not in the page (here the filter \<open>completed\<close> hides the pending
  task), the call ends with the \<open>TypeError\<close> of \<open>cancelEditTask\<close>.
\<close>

theorem saveEditTask_invalid_no_error:
  "saveEditTask (Num 1) ''   '' milk_app
     = (Return Undefined, showNotification ''Task cannot be empty!'' ''warning'' milk_app) \<and>
   tasks (snd (setFilter ''completed'' milk_app)) = [buy_milk] \<and>
   fst (saveEditTask (Num 1) ''   '' (snd (setFilter ''completed'' milk_app))) = Throw TypeError"
  by (simp add: saveEditTask_def cancelEditTask_def setFilter_def renderTasks_def
      getFilteredTasks_def Let_def trim_def isWhiteSpace_def milk_app_def buy_milk_def
      taskElement_found_def showNotification_def toString_1 del: toString.simps)

subsection \<open>Setting the filter\<close>

text \<open>
  Claim C8, as the code does it. \<open>setFilter\<close> stores whatever value it is given as the
  current filter, returns \<open>undefined\<close>, shows no notification, and leaves the tasks, the
  counter, the search term and the storage unchanged.
\<close>

theorem setFilter_any_value:
  "fst (setFilter filter_name s) = Return Undefined \<and>
   currentFilter (snd (setFilter filter_name s)) = filter_name \<and>
   tasks (snd (setFilter filter_name s)) = tasks s \<and>
   taskIdCounter (snd (setFilter filter_name s)) = taskIdCounter s \<and>
   currentSearchTerm (snd (setFilter filter_name s)) = currentSearchTerm s \<and>
   localStorage (snd (setFilter filter_name s)) = localStorage s \<and>
   notifications (snd (setFilter filter_name s)) = notifications s"
  by (simp add: setFilter_def renderTasks_def)

text \<open>
  Claim C8 as stated fails: a value outside \<open>all\<close>, \<open>completed\<close>, \<open>pending\<close> is accepted.
  \<open>setFilter("urgent")\<close> returns \<open>undefined\<close> without a notification and the current filter,
  which was \<open>all\<close>, is \<open>urgent\<close>.
\<close>

theorem setFilter_unrecognised:
  "''urgent'' \<notin> {''all'', ''completed'', ''pending''} \<and> currentFilter milk_app = ''all'' \<and>
   fst (setFilter ''urgent'' milk_app) = Return Undefined \<and>
   currentFilter (snd (setFilter ''urgent'' milk_app)) = ''urgent'' \<and>
   notifications (snd (setFilter ''urgent'' milk_app)) = notifications milk_app"
  by (simp add: setFilter_def renderTasks_def milk_app_def)

subsection \<open>Hydration\<close>

text \<open>
  Claim C9 does not hold of the code. \<open>loadTasksFromStorage\<close> catches what its own reads
  and \<open>JSON.parse\<close> throw, and only that (\<open>new_TodoApp_cases\<close> has every case):
  \<^item> when reading the storage throws, \<open>loadTasksFromStorage\<close> falls back, but \<open>init\<close> goes
    on to \<open>loadThemeFromStorage\<close>, which reads the storage outside any \<open>try\<close>: the
    exception leaves the constructor;
  \<^item> a stored task text that parses, but not to an array (\<open>null\<close>), is taken as the task
    list, and the first rendering throws a \<open>TypeError\<close> that leaves the constructor;
  \<^item> a stored counter that is no number (\<open>abc\<close>) is read as \<open>NaN\<close> next to the stored
    tasks: no fallback and no notification.

  The fallback of the claim is what the code does for a stored task text that \<open>JSON.parse\<close>
  rejects: the empty list, the counter 1 and the notification \<open>Failed to load saved tasks!\<close>.
\<close>

theorem hydration_throws:
  "new_TodoApp (empty_storage\<lparr>getItemThrows := True\<rparr>) = Inl DOMException \<and>
   new_TodoApp (empty_storage\<lparr>todoApp_tasks := Some NotIterableText\<rparr>) = Inl TypeError \<and>
   new_TodoApp (empty_storage\<lparr>todoApp_tasks := Some (ArrayOf [buy_milk]),
                               todoApp_taskIdCounter := Some ''abc''\<rparr>)
     = Inr ((constructor (empty_storage\<lparr>todoApp_tasks := Some (ArrayOf [buy_milk]),
                                          todoApp_taskIdCounter := Some ''abc''\<rparr>))
              \<lparr>tasks := [buy_milk], taskIdCounter := NaN, taskList := [''1'']\<rparr>) \<and>
   new_TodoApp (empty_storage\<lparr>todoApp_tasks := Some Malformed, todoApp_taskIdCounter := Some ''5''\<rparr>)
     = Inr ((constructor (empty_storage\<lparr>todoApp_tasks := Some Malformed,
                                          todoApp_taskIdCounter := Some ''5''\<rparr>))
              \<lparr>notifications := [(''Failed to load saved tasks!'', ''error'')]\<rparr>)"
  by (simp add: new_TodoApp_def init_def constructor_def loadTasksFromStorage_def
      loadThemeFromStorage_def catch_load_def read_counter_def Let_def renderTasks_def
      getFilteredTasks_def showNotification_def empty_storage_def buy_milk_def parseInt_def
      isWhiteSpace_def digit_value_def toString_1 del: toString.simps)

subsection \<open>What the operations leave alone\<close>

text \<open>
  Claim C10. With \<open>p\<close> the test \<open>task.id === taskId\<close>:
  \<^item> \<open>toggleTask\<close> keeps the length of the list, the \<open>id\<close>, \<open>text\<close> and \<open>createdAt\<close> of every
    task, and every task at a position whose id is not \<open>taskId\<close>;
  \<^item> \<open>saveEditTask\<close> with valid text keeps the length of the list, the \<open>id\<close>, \<open>completed\<close>,
    \<open>createdAt\<close> and \<open>completedAt\<close> of every task, and every task at a position whose id is
    not \<open>taskId\<close>;
  \<^item> \<open>deleteTask\<close> keeps the whole list, and its timer callback keeps exactly the tasks whose
    id is not \<open>taskId\<close>, in their order;
  \<^item> all four keep the id counter, the current filter and the search term.
\<close>

theorem frame_conditions:
  "(let p = (\<lambda>t. strict_eq (task_id t) taskId);
        s1 = snd (toggleTask now taskId s);
        s2 = snd (saveEditTask taskId newText s);
        s3 = snd (deleteTask taskId s);
        s4 = deleteTask_timeout taskId s
    in (length (tasks s1) = length (tasks s) \<and>
        map (\<lambda>t. (task_id t, task_text t, createdAt t)) (tasks s1)
          = map (\<lambda>t. (task_id t, task_text t, createdAt t)) (tasks s) \<and>
        (\<forall>j < length (tasks s). \<not> p (tasks s ! j) \<longrightarrow> tasks s1 ! j = tasks s ! j) \<and>
        taskIdCounter s1 = taskIdCounter s \<and> currentFilter s1 = currentFilter s \<and>
        currentSearchTerm s1 = currentSearchTerm s) \<and>
       (trim newText \<noteq> [] \<and> length (trim newText) \<le> 200 \<longrightarrow>
        length (tasks s2) = length (tasks s) \<and>
        map (\<lambda>t. (task_id t, completed t, createdAt t, completedAt t)) (tasks s2)
          = map (\<lambda>t. (task_id t, completed t, createdAt t, completedAt t)) (tasks s) \<and>
        (\<forall>j < length (tasks s). \<not> p (tasks s ! j) \<longrightarrow> tasks s2 ! j = tasks s ! j) \<and>
        taskIdCounter s2 = taskIdCounter s \<and> currentFilter s2 = currentFilter s \<and>
        currentSearchTerm s2 = currentSearchTerm s) \<and>
       (tasks s3 = tasks s \<and>
        taskIdCounter s3 = taskIdCounter s \<and> currentFilter s3 = currentFilter s \<and>
        currentSearchTerm s3 = currentSearchTerm s) \<and>
       (tasks s4 = filter (\<lambda>t. \<not> p t) (tasks s) \<and>
        taskIdCounter s4 = taskIdCounter s \<and> currentFilter s4 = currentFilter s \<and>
        currentSearchTerm s4 = currentSearchTerm s))"
proof -
  let ?p = "\<lambda>t. strict_eq (task_id t) taskId"
  have toggle:
    "length (tasks (snd (toggleTask now taskId s))) = length (tasks s)"
    "map (\<lambda>t. (task_id t, task_text t, createdAt t)) (tasks (snd (toggleTask now taskId s)))
       = map (\<lambda>t. (task_id t, task_text t, createdAt t)) (tasks s)"
    "\<forall>j < length (tasks s). \<not> ?p (tasks s ! j) \<longrightarrow>
       tasks (snd (toggleTask now taskId s)) ! j = tasks s ! j"
    unfolding tasks_toggleTask
    by (simp_all add: length_update_first map_update_first nth_update_first toggle_fields_def)
  have edit:
    "length (tasks (snd (saveEditTask taskId newText s))) = length (tasks s)"
    "map (\<lambda>t. (task_id t, completed t, createdAt t, completedAt t))
         (tasks (snd (saveEditTask taskId newText s)))
       = map (\<lambda>t. (task_id t, completed t, createdAt t, completedAt t)) (tasks s)"
    "\<forall>j < length (tasks s). \<not> ?p (tasks s ! j) \<longrightarrow>
       tasks (snd (saveEditTask taskId newText s)) ! j = tasks s ! j"
    if "trim newText \<noteq> []" "length (trim newText) \<le> 200"
    unfolding tasks_saveEditTask [OF that]
    by (simp_all add: length_update_first map_update_first nth_update_first)
  show ?thesis
    unfolding Let_def
    using toggle edit frame_toggleTask [of now taskId s] frame_saveEditTask [of taskId newText s]
      frame_deleteTask [of taskId s] frame_deleteTask_timeout [of taskId s]
    by blast
qed

text \<open>
  Claim C10, an instance: with \<open>"Buy eggs"\<close> (id 2) in front of \<open>"Buy milk"\<close> (id 1),
  toggling, editing and deleting the task 1 leave \<open>"Buy eggs"\<close> as it was, and the counter
  stays 3.
\<close>

theorem frame_conditions_witness:
  "0 < length (tasks eggs_app) \<and> \<not> strict_eq (task_id (tasks eggs_app ! 0)) (Num 1) \<and>
   tasks (snd (toggleTask ''2024-05-02T18:30:00.000Z'' (Num 1) eggs_app)) ! 0 = buy_eggs \<and>
   trim ''Buy oat milk'' \<noteq> [] \<and> length (trim ''Buy oat milk'') \<le> 200 \<and>
   tasks (snd (saveEditTask (Num 1) ''Buy oat milk'' eggs_app)) ! 0 = buy_eggs \<and>
   tasks (deleteTask_timeout (Num 1) eggs_app) = [buy_eggs] \<and>
   taskIdCounter (deleteTask_timeout (Num 1) eggs_app) = Num 3"
  using frame_conditions [where s = eggs_app and taskId = "Num 1"
      and now = "''2024-05-02T18:30:00.000Z''" and newText = "''Buy oat milk''"]
  by (simp add: Let_def eggs_app_def buy_eggs_def buy_milk_def trim_def isWhiteSpace_def)

end
